theory Spec2Isabelle
  imports Complex_Main "HOL-Library.Word"
begin

unbundle bit_operations_syntax

section \<open>ckdb.c: machine integers, C strings and the libc calls the code makes\<close>

text \<open>
  \<open>int32_t\<close> and \<open>int64_t\<close> values are carried as \<open>int\<close>; where the C converts or
  adds, the two's complement wrap-around is written out with \<open>int32\<close> and \<open>int64\<close>.
  A \<open>double\<close> is carried as a \<open>real\<close>: rounding to binary64 is not modelled.
\<close>

definition int32 :: "int \<Rightarrow> int" where
  "int32 x = (x + 2 ^ 31) mod 2 ^ 32 - 2 ^ 31"

definition int64 :: "int \<Rightarrow> int" where
  "int64 x = (x + 2 ^ 63) mod 2 ^ 64 - 2 ^ 63"

datatype fault = QUIT | SEGV

text \<open>A \<open>char *\<close> argument that is never \<open>NULL\<close>, as the add functions get from
  the fields of a message.\<close>

type_synonym cstr = string

text \<open>\<open>STRNCPY(trg, src)\<close>: \<open>strncpy\<close> of \<open>sizeof(trg)\<close> bytes, then a NUL in the last
  byte, so the target holds at most \<open>sizeof(trg) - 1\<close> characters of the source.\<close>

definition STRNCPYSIZ :: "nat \<Rightarrow> string \<Rightarrow> string" where
  "STRNCPYSIZ siz src = take (siz - 1) src"

definition TXT_BIG :: nat where "TXT_BIG = 256"
definition TXT_MED :: nat where "TXT_MED = 128"
definition TXT_SML :: nat where "TXT_SML = 64"
definition TXT_FLAG :: nat where "TXT_FLAG = 1"

definition isspace :: "char \<Rightarrow> bool" where
  "isspace c = (let n = (of_char c :: nat) in n = 32 \<or> (9 \<le> n \<and> n \<le> 13))"

definition isdigit :: "char \<Rightarrow> bool" where
  "isdigit c = (let n = (of_char c :: nat) in 48 \<le> n \<and> n \<le> 57)"

definition tolower :: "char \<Rightarrow> char" where
  "tolower c = (let n = (of_char c :: nat) in if 65 \<le> n \<and> n \<le> 90 then char_of (n + 32) else c)"

fun strcmp :: "string \<Rightarrow> string \<Rightarrow> int" where
  "strcmp [] [] = 0"
| "strcmp [] (y # ys) = - 1"
| "strcmp (x # xs) [] = 1"
| "strcmp (x # xs) (y # ys) =
     (if x = y then strcmp xs ys else int (of_char x) - int (of_char y))"

definition strcasecmp :: "string \<Rightarrow> string \<Rightarrow> int" where
  "strcasecmp a b = strcmp (map tolower a) (map tolower b)"

subsection \<open>Decimal input: the conversions of \<open>sscanf\<close>, \<open>atoi\<close> and \<open>atoll\<close>\<close>

definition digits_val :: "string \<Rightarrow> nat" where
  "digits_val ds = foldl (\<lambda>a c. 10 * a + (of_char c - 48)) 0 ds"

text \<open>An optionally signed decimal number after optional white space, as \<open>strtol\<close>
  reads it: the sign, the magnitude and the rest of the input; \<open>None\<close> when no digit
  stands there.\<close>

definition scan_int :: "string \<Rightarrow> (bool \<times> nat \<times> string) option" where
  "scan_int s =
     (let t = dropWhile isspace s;
          neg = (t \<noteq> [] \<and> hd t = CHR ''-'');
          u = (if t \<noteq> [] \<and> (hd t = CHR ''-'' \<or> hd t = CHR ''+'') then tl t else t);
          ds = takeWhile isdigit u
      in if ds = [] then None else Some (neg, digits_val ds, dropWhile isdigit u))"

text \<open>\<open>strtol\<close> and \<open>strtoll\<close> (64 bits) saturate; \<open>strtoul\<close> saturates on the
  magnitude and negates modulo \<open>2^64\<close>.\<close>

definition conv_ld :: "bool \<Rightarrow> nat \<Rightarrow> int" where
  "conv_ld neg m = (if neg then max (- (2 ^ 63)) (- int m) else min (2 ^ 63 - 1) (int m))"

definition conv_u :: "bool \<Rightarrow> nat \<Rightarrow> int" where
  "conv_u neg m =
     (let v = (if int m \<ge> 2 ^ 64 then 2 ^ 64 - 1 else if neg then (2 ^ 64 - int m) mod 2 ^ 64 else int m)
      in v mod 2 ^ 32)"

definition atoll :: "string \<Rightarrow> int" where
  "atoll s = (case scan_int s of None \<Rightarrow> 0 | Some (neg, m, r) \<Rightarrow> conv_ld neg m)"

definition atoi :: "string \<Rightarrow> int" where
  "atoi s = int32 (atoll s)"

text \<open>A \<open>sscanf\<close> format is a list of directives; the result is the list of values
  assigned, in order, up to the first directive that does not match (the C return
  value is its length; an input failure before the first conversion gives \<open>EOF\<close> in
  C and the empty list here, both "no value assigned").\<close>

datatype conv = Conv_u | Conv_ld | Lit char | Space

fun sscanf :: "conv list \<Rightarrow> string \<Rightarrow> int list" where
  "sscanf [] s = []"
| "sscanf (Space # f) s = sscanf f (dropWhile isspace s)"
| "sscanf (Lit c # f) s =
     (case s of [] \<Rightarrow> [] | x # xs \<Rightarrow> if x = c then sscanf f xs else [])"
| "sscanf (Conv_u # f) s =
     (case scan_int s of None \<Rightarrow> [] | Some (neg, m, r) \<Rightarrow> conv_u neg m # sscanf f r)"
| "sscanf (Conv_ld # f) s =
     (case scan_int s of None \<Rightarrow> [] | Some (neg, m, r) \<Rightarrow> conv_ld neg m # sscanf f r)"

subsection \<open>Decimal output: \<open>snprintf\<close> with \<open>%d\<close> and \<open>PRId64\<close>\<close>

fun dec_nat :: "nat \<Rightarrow> string" where
  "dec_nat n = (if n < 10 then [char_of (48 + n)] else dec_nat (n div 10) @ [char_of (48 + n mod 10)])"

declare dec_nat.simps [simp del]

definition dec_int :: "int \<Rightarrow> string" where
  "dec_int i = (if i < 0 then CHR ''-'' # dec_nat (nat (- i)) else dec_nat (nat i))"

section \<open>Timestamps\<close>

record tv_t =
  tv_sec :: int
  tv_usec :: int

record tm =
  tm_sec :: int
  tm_min :: int
  tm_hour :: int
  tm_mday :: int
  tm_mon :: int
  tm_year :: int
  tm_isdst :: int

definition DEFAULT_EXPIRY :: int where "DEFAULT_EXPIRY = 148204965966"
definition COMPARE_EXPIRY :: int where "COMPARE_EXPIRY = 148204512000"
definition DATE_S_EOT :: int where "DATE_S_EOT = 253402300799"
definition DATE_uS_EOT :: int where "DATE_uS_EOT = 0"

definition default_expiry :: tv_t where
  "default_expiry = \<lparr>tv_sec = DEFAULT_EXPIRY, tv_usec = 0\<rparr>"

definition date_eot :: tv_t where
  "date_eot = \<lparr>tv_sec = DATE_S_EOT, tv_usec = DATE_uS_EOT\<rparr>"

text \<open>Modelled from the spec: \<open>tvdiff\<close> is declared in libckpool.h, which is not among
  the sources. Timestamps are seconds plus microseconds (spec, section 3); \<open>tvdiff end
  start\<close> is their difference in seconds.\<close>

definition tvdiff :: "tv_t \<Rightarrow> tv_t \<Rightarrow> real" where
  "tvdiff e s = real_of_int (tv_sec e - tv_sec s) + real_of_int (tv_usec e - tv_usec s) / 1000000"

subsection \<open>\<open>txt_to_data\<close>, case \<open>TYPE_TV\<close>\<close>

definition fmt_tv :: "conv list" where
  "fmt_tv = [Conv_u, Lit (CHR ''-''), Conv_u, Lit (CHR ''-''), Conv_u, Space,
             Conv_u, Lit (CHR '':''), Conv_u, Lit (CHR '':''), Conv_u, Lit (CHR ''+''), Conv_u]"

definition fmt_tv_uS :: "conv list" where
  "fmt_tv_uS = [Conv_u, Lit (CHR ''-''), Conv_u, Lit (CHR ''-''), Conv_u, Space,
                Conv_u, Lit (CHR '':''), Conv_u, Lit (CHR '':''), Conv_u, Lit (CHR ''.''), Conv_u,
                Lit (CHR ''+''), Conv_u]"

definition make_tm :: "int \<Rightarrow> int \<Rightarrow> int \<Rightarrow> int \<Rightarrow> int \<Rightarrow> int \<Rightarrow> tm" where
  "make_tm yyyy mm dd HH MM SS =
     \<lparr>tm_sec = int32 SS, tm_min = int32 MM, tm_hour = int32 HH, tm_mday = int32 dd,
      tm_mon = int32 (int32 mm - 1), tm_year = int32 (int32 yyyy - 1900), tm_isdst = - 1\<rparr>"

text \<open>The two \<open>sscanf\<close> calls: first without microseconds (\<open>uS\<close> keeps its initial 0),
  then with them; \<open>None\<close> is the \<open>quithere\<close> of an unhandled date.\<close>

definition scan_tv :: "string \<Rightarrow> (tm \<times> int) option" where
  "scan_tv fld =
     (let r = sscanf fmt_tv fld
      in if length r = 7
         then Some (make_tm (r ! 0) (r ! 1) (r ! 2) (r ! 3) (r ! 4) (r ! 5), 0)
         else (let r' = sscanf fmt_tv_uS fld
               in if length r' = 8
                  then Some (make_tm (r' ! 0) (r' ! 1) (r' ! 2) (r' ! 3) (r' ! 4) (r' ! 5), r' ! 6)
                  else None))"

text \<open>\<open>mktime\<close> depends on the time zone of the process, so it is a parameter.\<close>

definition txt_to_tv :: "(tm \<Rightarrow> int) \<Rightarrow> string \<Rightarrow> fault + tv_t" where
  "txt_to_tv mktime fld =
     (case scan_tv fld of
        None \<Rightarrow> Inl QUIT
      | Some (t, uS) \<Rightarrow>
          (let tim = mktime t
           in if tim > COMPARE_EXPIRY
              then Inr \<lparr>tv_sec = tv_sec default_expiry, tv_usec = tv_usec default_expiry\<rparr>
              else Inr \<lparr>tv_sec = tim, tv_usec = uS\<rparr>))"

text \<open>\<open>mktime\<close> for a process whose time zone is UTC and fields in their normal
  ranges: days since 1970-01-01 in the proleptic Gregorian calendar.\<close>

definition days_from_civil :: "int \<Rightarrow> int \<Rightarrow> int \<Rightarrow> int" where
  "days_from_civil y m d =
     (let y' = (if m \<le> 2 then y - 1 else y);
          era = y' div 400;
          yoe = y' - era * 400;
          doy = (153 * (if m > 2 then m - 3 else m + 9) + 2) div 5 + d - 1;
          doe = yoe * 365 + yoe div 4 - yoe div 100 + doy
      in era * 146097 + doe - 719468)"

definition mktime_utc :: "tm \<Rightarrow> int" where
  "mktime_utc t =
     days_from_civil (tm_year t + 1900) (tm_mon t + 1) (tm_mday t) * 86400
       + tm_hour t * 3600 + tm_min t * 60 + tm_sec t"

section \<open>Rows of the entity tables\<close>

text \<open>The date-control bundles: \<open>SIMPLEDATECONTROLFIELDS\<close> and, with the expiry date,
  \<open>HISTORYDATECONTROLFIELDS\<close>.\<close>

record simpledate =
  createdate :: tv_t
  createby :: string
  createcode :: string
  createinet :: string

record history = simpledate +
  expirydate :: tv_t

text \<open>A \<open>double\<close> field holds what \<open>atof\<close> gave for a text; no claim reads its value,
  so it is kept as that text.\<close>

datatype double = Atof string

text \<open>\<open>TRANSFER.data\<close> points either at the item's own \<open>value\<close> buffer or at memory
  from \<open>malloc\<close>/\<open>strdup\<close>.\<close>

datatype data_ptr = Value_buf | Malloc string

record transfer =
  name :: string
  value' :: string
  data :: data_ptr

record users = history +
  userid :: int
  username :: string
  emailaddress :: string
  joineddate :: tv_t
  passwordhash :: string
  secondaryuserid :: string

record workers = history +
  workerid :: int
  userid :: int
  workername :: string
  difficultydefault :: int
  idlenotificationenabled :: char
  idlenotificationtime :: int

record payments = history +
  paymentid :: int
  userid :: int
  paydate :: tv_t
  payaddress :: string
  originaltxn :: string
  amount :: int
  committxn :: string
  commitblockhash :: string

record workinfo = history +
  workinfoid :: int
  poolinstance :: string
  transactiontree :: string
  merklehash :: string
  prevhash :: string
  coinbase1 :: string
  coinbase2 :: string
  version :: string
  bits :: string
  ntime :: string
  reward :: int

record shares = history +
  workinfoid :: int
  userid :: int
  workername :: string
  clientid :: int
  enonce1 :: string
  nonce2 :: string
  nonce :: string
  diff :: double
  sdiff :: double
  errn :: int
  error :: string
  secondaryuserid :: string

record shareerrors = history +
  workinfoid :: int
  userid :: int
  workername :: string
  clientid :: int
  errn :: int
  error :: string
  secondaryuserid :: string

record auths = history +
  authid :: int
  userid :: int
  workername :: string
  clientid :: int
  enonce1 :: string
  useragent :: string

record poolstats = simpledate +
  poolinstance :: string
  when' :: tv_t
  users' :: int
  workers' :: int
  hashrate :: double
  hashrate5m :: double
  hashrate1hr :: double
  hashrate24hr :: double

definition NAME_SIZE :: nat where "NAME_SIZE = 63"
definition VALUE_SIZE :: nat where "VALUE_SIZE = 1023"

definition transfer_data :: "transfer \<Rightarrow> string" where
  "transfer_data t = (case data t of Value_buf \<Rightarrow> value' t | Malloc str \<Rightarrow> str)"

definition DIFFICULTYDEFAULT_MIN :: int where "DIFFICULTYDEFAULT_MIN = 10"
definition DIFFICULTYDEFAULT_MAX :: int where "DIFFICULTYDEFAULT_MAX = 1000000"
definition DIFFICULTYDEFAULT_DEF :: int where "DIFFICULTYDEFAULT_DEF = DIFFICULTYDEFAULT_MIN"
definition DIFFICULTYDEFAULT_DEF_STR :: string where "DIFFICULTYDEFAULT_DEF_STR = ''10''"
definition IDLENOTIFICATIONENABLED :: string where "IDLENOTIFICATIONENABLED = ''y''"
definition IDLENOTIFICATIONDISABLED :: string where "IDLENOTIFICATIONDISABLED = '' ''"
definition IDLENOTIFICATIONENABLED_DEF :: string where
  "IDLENOTIFICATIONENABLED_DEF = IDLENOTIFICATIONDISABLED"
definition IDLENOTIFICATIONTIME_MIN :: int where "IDLENOTIFICATIONTIME_MIN = 10"
definition IDLENOTIFICATIONTIME_MAX :: int where "IDLENOTIFICATIONTIME_MAX = 60"
definition IDLENOTIFICATIONTIME_DEF :: int where "IDLENOTIFICATIONTIME_DEF = IDLENOTIFICATIONTIME_MIN"
definition IDLENOTIFICATIONTIME_DEF_STR :: string where "IDLENOTIFICATIONTIME_DEF_STR = ''10''"

definition STATS_PER :: real where "STATS_PER = 9.5 * 60.0"

subsection \<open>The date-control macros\<close>

definition SIMPLEDATEINIT ::
  "'a simpledate_scheme \<Rightarrow> tv_t \<Rightarrow> string \<Rightarrow> string \<Rightarrow> string \<Rightarrow> 'a simpledate_scheme" where
  "SIMPLEDATEINIT row now by code inet =
     row\<lparr>createdate := \<lparr>tv_sec = tv_sec now, tv_usec = tv_usec now\<rparr>,
         createby := STRNCPYSIZ (TXT_SML + 1) by,
         createcode := STRNCPYSIZ (TXT_MED + 1) code,
         createinet := STRNCPYSIZ (TXT_MED + 1) inet\<rparr>"

definition HISTORYDATEINIT ::
  "'a history_scheme \<Rightarrow> tv_t \<Rightarrow> string \<Rightarrow> string \<Rightarrow> string \<Rightarrow> 'a history_scheme" where
  "HISTORYDATEINIT row now by code inet =
     row\<lparr>createdate := \<lparr>tv_sec = tv_sec now, tv_usec = tv_usec now\<rparr>,
         createby := STRNCPYSIZ (TXT_SML + 1) by,
         createcode := STRNCPYSIZ (TXT_MED + 1) code,
         createinet := STRNCPYSIZ (TXT_MED + 1) inet,
         expirydate := \<lparr>tv_sec = tv_sec default_expiry, tv_usec = tv_usec default_expiry\<rparr>\<rparr>"

section \<open>Free lists, stores and trees\<close>

text \<open>Modelled from the spec: klist.h and ktree.h are not among the sources; the spec
  (sections 1 and 4.A) calls the free-list allocator an implementation detail and the
  tree an ordered container with \<open>find\<close>, \<open>find_before\<close>, \<open>find_after\<close>, forward
  iteration and \<open>insert\<close> under a per-table comparator. A \<open>K_ITEM\<close> is the number of
  its slot; \<open>k_data\<close> is the row each slot holds (\<open>DATA_USERS(item)\<close> and so on), which
  keeps what was last written there; \<open>k_free\<close> is the \<open>K_LIST\<close> of unused items and
  \<open>k_store\<close> the \<open>K_STORE\<close> of items in use, both head first. \<open>k_unlink_head\<close> takes the
  head of the free list and, when the list is empty, a slot never used before.
  A tree is the list of its items in comparator order.\<close>

record 'r klist =
  k_data :: "nat \<Rightarrow> 'r"
  k_free :: "nat list"
  k_store :: "nat list"
  k_total :: nat

definition k_unlink_head :: "'r klist \<Rightarrow> nat \<times> 'r klist" where
  "k_unlink_head l =
     (case k_free l of
        [] \<Rightarrow> (k_total l, l\<lparr>k_total := Suc (k_total l)\<rparr>)
      | item # rest \<Rightarrow> (item, l\<lparr>k_free := rest\<rparr>))"

definition k_add_head_list :: "nat \<Rightarrow> 'r klist \<Rightarrow> 'r klist" where
  "k_add_head_list item l = l\<lparr>k_free := item # k_free l\<rparr>"

definition k_add_head_store :: "nat \<Rightarrow> 'r klist \<Rightarrow> 'r klist" where
  "k_add_head_store item l = l\<lparr>k_store := item # k_store l\<rparr>"

definition set_data :: "nat \<Rightarrow> 'r \<Rightarrow> 'r klist \<Rightarrow> 'r klist" where
  "set_data item row l = l\<lparr>k_data := (k_data l)(item := row)\<rparr>"

fun add_to_ktree :: "('r \<Rightarrow> 'r \<Rightarrow> real) \<Rightarrow> (nat \<Rightarrow> 'r) \<Rightarrow> nat list \<Rightarrow> nat \<Rightarrow> nat list" where
  "add_to_ktree cmp d [] item = [item]"
| "add_to_ktree cmp d (x # xs) item =
     (if cmp (d item) (d x) < 0 then item # x # xs else x # add_to_ktree cmp d xs item)"

definition find_in_ktree :: "('r \<Rightarrow> 'r \<Rightarrow> real) \<Rightarrow> (nat \<Rightarrow> 'r) \<Rightarrow> nat list \<Rightarrow> 'r \<Rightarrow> nat option" where
  "find_in_ktree cmp d ktree look = List.find (\<lambda>i. cmp (d i) look = 0) ktree"

definition find_before_in_ktree ::
  "('r \<Rightarrow> 'r \<Rightarrow> real) \<Rightarrow> (nat \<Rightarrow> 'r) \<Rightarrow> nat list \<Rightarrow> 'r \<Rightarrow> nat option" where
  "find_before_in_ktree cmp d ktree look =
     (case rev (takeWhile (\<lambda>i. cmp (d i) look < 0) ktree) of [] \<Rightarrow> None | i # _ \<Rightarrow> Some i)"

text \<open>\<open>find_after_in_ktree\<close> with the \<open>next_in_ktree\<close> calls that follow it: the items
  after the key, in order.\<close>

definition find_after_in_ktree ::
  "('r \<Rightarrow> 'r \<Rightarrow> real) \<Rightarrow> (nat \<Rightarrow> 'r) \<Rightarrow> nat list \<Rightarrow> 'r \<Rightarrow> nat list" where
  "find_after_in_ktree cmp d ktree look = dropWhile (\<lambda>i. cmp (d i) look \<le> 0) ktree"

subsection \<open>The comparators\<close>

text \<open>The comparators convert a 64-bit id with \<open>(double)\<close> before they subtract. A
  double has 53 significant bits: \<open>cast_double x\<close> is the nearest such number, the even
  one of two that are equally near (IEEE 754 binary64 in the default rounding mode). It
  is an integer whenever \<open>x\<close> is, so it is given as one. \<open>dbl_shift m\<close> is the number of
  low bits that \<open>m\<close> loses. \<open>double_minus\<close> is the subtraction of two such doubles,
  rounded in the same way.\<close>

function dbl_shift :: "nat \<Rightarrow> nat" where
  "dbl_shift m = (if m < 2 ^ 53 then 0 else Suc (dbl_shift (m div 2)))"
  by pat_completeness auto
termination
  by (relation "measure id") auto

declare dbl_shift.simps [simp del]

definition cast_double :: "int \<Rightarrow> int" where
  "cast_double x =
     (let m = nat \<bar>x\<bar>;
          e = dbl_shift m;
          q = m div 2 ^ e;
          r = m mod 2 ^ e;
          q' = (if 2 * r > 2 ^ e \<or> (2 * r = 2 ^ e \<and> odd q) then q + 1 else q)
      in sgn x * int (q' * 2 ^ e))"

definition double_minus :: "int \<Rightarrow> int \<Rightarrow> real" where
  "double_minus x y = real_of_int (cast_double (x - y))"

definition cmp_transfer :: "transfer \<Rightarrow> transfer \<Rightarrow> real" where
  "cmp_transfer a b = real_of_int (strcmp (name a) (name b))"

definition cmp_users :: "users \<Rightarrow> users \<Rightarrow> real" where
  "cmp_users a b =
     (let c = real_of_int (strcmp (username a) (username b))
      in if c = 0 then tvdiff (expirydate b) (expirydate a) else c)"

definition cmp_userid :: "users \<Rightarrow> users \<Rightarrow> real" where
  "cmp_userid a b =
     (let c = double_minus (cast_double (users.userid a)) (cast_double (users.userid b))
      in if c = 0 then tvdiff (expirydate b) (expirydate a) else c)"

definition cmp_workers :: "workers \<Rightarrow> workers \<Rightarrow> real" where
  "cmp_workers a b =
     (let c = double_minus (cast_double (workers.userid a)) (cast_double (workers.userid b))
      in if c = 0
         then (let c' = real_of_int (strcmp (workers.workername a) (workers.workername b))
               in if c' = 0 then tvdiff (expirydate b) (expirydate a) else c')
         else c)"

definition cmp_payments :: "payments \<Rightarrow> payments \<Rightarrow> real" where
  "cmp_payments a b =
     (let c = double_minus (cast_double (payments.userid a)) (cast_double (payments.userid b))
      in if c = 0
         then (let c1 = tvdiff (paydate a) (paydate b)
               in if c1 = 0
                  then (let c2 = real_of_int (strcmp (payaddress a) (payaddress b))
                        in if c2 = 0 then tvdiff (expirydate b) (expirydate a) else c2)
                  else c1)
         else c)"

definition cmp_workinfo :: "workinfo \<Rightarrow> workinfo \<Rightarrow> real" where
  "cmp_workinfo a b =
     (let c = double_minus (cast_double (workinfo.workinfoid a))
                (cast_double (workinfo.workinfoid b))
      in if c = 0 then tvdiff (expirydate b) (expirydate a) else c)"

definition cmp_shares :: "shares \<Rightarrow> shares \<Rightarrow> real" where
  "cmp_shares a b =
     (let c = double_minus (cast_double (shares.workinfoid a)) (cast_double (shares.workinfoid b))
      in if c = 0
         then (let c1 = double_minus (cast_double (shares.userid b)) (cast_double (shares.userid a))
               in if c1 = 0
                  then (let c2 = tvdiff (createdate b) (createdate a)
                        in if c2 = 0
                           then (let c3 = real_of_int (strcmp (nonce a) (nonce b))
                                 in if c3 = 0 then tvdiff (expirydate b) (expirydate a) else c3)
                           else c2)
                  else c1)
         else c)"

definition cmp_shareerrors :: "shareerrors \<Rightarrow> shareerrors \<Rightarrow> real" where
  "cmp_shareerrors a b =
     (let c = double_minus (cast_double (shareerrors.workinfoid a))
                (cast_double (shareerrors.workinfoid b))
      in if c = 0
         then (let c1 = double_minus (cast_double (shareerrors.userid b))
                          (cast_double (shareerrors.userid a))
               in if c1 = 0
                  then (let c2 = tvdiff (createdate b) (createdate a)
                        in if c2 = 0 then tvdiff (expirydate b) (expirydate a) else c2)
                  else c1)
         else c)"

definition cmp_auths :: "auths \<Rightarrow> auths \<Rightarrow> real" where
  "cmp_auths a b =
     (let c = double_minus (cast_double (authid a)) (cast_double (authid b))
      in if c = 0
         then (let c1 = double_minus (cast_double (auths.userid b)) (cast_double (auths.userid a))
               in if c1 = 0
                  then (let c2 = tvdiff (createdate b) (createdate a)
                        in if c2 = 0 then tvdiff (expirydate b) (expirydate a) else c2)
                  else c1)
         else c)"

definition cmp_poolstats :: "poolstats \<Rightarrow> poolstats \<Rightarrow> real" where
  "cmp_poolstats a b =
     (let c = real_of_int (strcmp (poolstats.poolinstance a) (poolstats.poolinstance b))
      in if c = 0 then tvdiff (createdate a) (createdate b) else c)"

section \<open>The process state and the database session\<close>

text \<open>The global tables of ckdb.c. \<open>users_k\<close> holds \<open>users_list\<close> (its \<open>k_free\<close>) and
  \<open>users_store\<close> (its \<open>k_store\<close>), and so on for every entity. \<open>heap_live\<close> counts the
  blocks from \<open>malloc\<close> and \<open>strdup\<close> that rows own and that were not freed yet
  (\<open>TRANSFER.data\<close>, \<open>WORKINFO.transactiontree\<close>, \<open>WORKINFO.merklehash\<close>).\<close>

record ckdb =
  transfer_k :: "transfer klist"
  transfer_root :: "nat list"
  users_k :: "users klist"
  users_root :: "nat list"
  userid_root :: "nat list"
  workers_k :: "workers klist"
  workers_root :: "nat list"
  payments_k :: "payments klist"
  payments_root :: "nat list"
  workinfo_k :: "workinfo klist"
  workinfo_root :: "nat list"
  shares_k :: "shares klist"
  shares_root :: "nat list"
  shareerrors_k :: "shareerrors klist"
  shareerrors_root :: "nat list"
  auths_k :: "auths klist"
  auths_root :: "nat list"
  poolstats_k :: "poolstats klist"
  poolstats_root :: "nat list"
  heap_live :: nat

text \<open>The database server is outside the program. A session is modelled by what the
  code can observe of it: \<open>pg_up\<close>, whether \<open>PQconnectdb\<close> gives \<open>CONNECTION_OK\<close>;
  \<open>pg_results\<close>, the result status of each statement to come, in order (a statement
  past the end of the list fails); \<open>pg_idcontrol\<close>, the text of \<open>lastid\<close> for each
  \<open>idname\<close> of the table \<open>idcontrol\<close>; and \<open>pg_done\<close>, the statements that ended with an
  OK status, oldest first, with their parameters. A parameter is kept as the typed
  value handed to \<open>data_to_buf\<close>.\<close>

datatype ExecStatusType =
  PGRES_EMPTY_QUERY | PGRES_COMMAND_OK | PGRES_TUPLES_OK | PGRES_COPY_OUT | PGRES_COPY_IN
| PGRES_BAD_RESPONSE | PGRES_NONFATAL_ERROR | PGRES_FATAL_ERROR

definition PGOK :: "ExecStatusType \<Rightarrow> bool" where
  "PGOK res = (res = PGRES_COMMAND_OK \<or> res = PGRES_TUPLES_OK \<or> res = PGRES_EMPTY_QUERY)"

text \<open>A parameter of a statement, by the function that printed it. \<open>poolstats_add\<close>
  prints its four hash rates, which are doubles, with \<open>bigint_to_buf\<close>: the argument is
  converted to \<open>int64_t\<close>, which drops the fraction. \<open>P_bigint_of_double\<close> is that
  parameter.\<close>

datatype param =
  P_str string | P_bigint int | P_int int | P_tv tv_t | P_bigint_of_double double

record pgconn =
  pg_up :: bool
  pg_results :: "ExecStatusType list"
  pg_idcontrol :: "string \<Rightarrow> string option"
  pg_done :: "(string \<times> param list) list"

definition PQexecParams :: "pgconn \<Rightarrow> string \<Rightarrow> param list \<Rightarrow> ExecStatusType \<times> pgconn" where
  "PQexecParams conn qry params =
     (case pg_results conn of
        [] \<Rightarrow> (PGRES_FATAL_ERROR, conn)
      | res # rest \<Rightarrow>
          (res, conn\<lparr>pg_results := rest,
                     pg_done := (if PGOK res then pg_done conn @ [(qry, params)] else pg_done conn)\<rparr>))"

definition PQexec :: "pgconn \<Rightarrow> string \<Rightarrow> ExecStatusType \<times> pgconn" where
  "PQexec conn qry = PQexecParams conn qry []"

definition dbconnect :: "pgconn \<Rightarrow> fault + pgconn" where
  "dbconnect db = (if pg_up db then Inr db else Inl QUIT)"

definition HISTORYDATEPARAMS :: "'a history_scheme \<Rightarrow> param list" where
  "HISTORYDATEPARAMS row =
     [P_tv (createdate row), P_str (createby row), P_str (createcode row),
      P_str (createinet row), P_tv (expirydate row)]"

definition SIMPLEDATEPARAMS :: "'a simpledate_scheme \<Rightarrow> param list" where
  "SIMPLEDATEPARAMS row =
     [P_tv (createdate row), P_str (createby row), P_str (createcode row),
      P_str (createinet row)]"

subsection \<open>\<open>nextid\<close>\<close>

text \<open>The \<open>select ... for update\<close> gives one field and, when the \<open>idname\<close> has a row,
  one tuple; any status but \<open>PGRES_TUPLES_OK\<close> carries no field. 0 is the result for
  every failure. When the \<open>update\<close> ends OK the table holds the new \<open>lastid\<close>.\<close>

definition nextid ::
  "pgconn \<Rightarrow> string \<Rightarrow> int \<Rightarrow> tv_t \<Rightarrow> string \<Rightarrow> string \<Rightarrow> string \<Rightarrow> int \<times> pgconn" where
  "nextid conn idname increment now by code inet =
     (case PQexec conn (''select lastid from idcontrol where idname='' @ idname @ '' for update'') of
        (rescode, conn1) \<Rightarrow>
          if \<not> PGOK rescode then (0, conn1)
          else if rescode \<noteq> PGRES_TUPLES_OK then (0, conn1)
          else
            (case pg_idcontrol conn1 idname of
               None \<Rightarrow> (0, conn1)
             | Some field \<Rightarrow>
                 (let lastid = int64 (atoll field + increment)
                  in case PQexecParams conn1 (''update idcontrol set lastid where idname='' @ idname)
                            [P_bigint lastid, P_tv now, P_str by, P_str code, P_str inet] of
                       (rescode2, conn2) \<Rightarrow>
                         if \<not> PGOK rescode2 then (0, conn2)
                         else (lastid,
                               conn2\<lparr>pg_idcontrol := (pg_idcontrol conn2)(idname \<mapsto> dec_int lastid)\<rparr>))))"

section \<open>The transfer map\<close>

definition transfer_look :: "string \<Rightarrow> transfer" where
  "transfer_look nm = \<lparr>name = STRNCPYSIZ (NAME_SIZE + 1) nm, value' = [], data = Value_buf\<rparr>"

definition find_transfer :: "ckdb \<Rightarrow> string \<Rightarrow> nat option" where
  "find_transfer s nm =
     find_in_ktree cmp_transfer (k_data (transfer_k s)) (transfer_root s) (transfer_look nm)"

definition DATA_TRANSFER :: "ckdb \<Rightarrow> nat \<Rightarrow> string" where
  "DATA_TRANSFER s item = transfer_data (k_data (transfer_k s) item)"

text \<open>The patterns the handlers validate with, and what \<open>regcomp\<close> with \<open>regexec\<close>
  decide for them (POSIX basic regular expressions; each is one bracket expression,
  starred, between \<open>^\<close> and \<open>$\<close>, \<open>intpatt\<close> and \<open>idpatt\<close> with a first character before
  it). \<open>regcomp\<close> of any other pattern is not modelled and fails.\<close>

definition userpatt :: string where "userpatt = ''^[!-~]*$''"
definition idpatt :: string where "idpatt = ''^[_A-Za-z][_A-Za-z0-9]*$''"
definition intpatt :: string where "intpatt = ''^[0-9][0-9]*$''"
definition hashpatt :: string where "hashpatt = ''^[A-Fa-f0-9]*$''"

definition isalpha :: "char \<Rightarrow> bool" where
  "isalpha c = (let n = (of_char c :: nat) in (65 \<le> n \<and> n \<le> 90) \<or> (97 \<le> n \<and> n \<le> 122))"

definition isxdigit :: "char \<Rightarrow> bool" where
  "isxdigit c = (let n = (of_char c :: nat)
                 in (48 \<le> n \<and> n \<le> 57) \<or> (65 \<le> n \<and> n \<le> 70) \<or> (97 \<le> n \<and> n \<le> 102))"

definition isgraph :: "char \<Rightarrow> bool" where
  "isgraph c = (let n = (of_char c :: nat) in 33 \<le> n \<and> n \<le> 126)"

definition regcomp :: "string \<Rightarrow> (string \<Rightarrow> bool) option" where
  "regcomp patt =
     (if patt = userpatt then Some (list_all isgraph)
      else if patt = hashpatt then Some (list_all isxdigit)
      else if patt = intpatt then Some (\<lambda>v. v \<noteq> [] \<and> list_all isdigit v)
      else if patt = idpatt then
        Some (\<lambda>v. v \<noteq> [] \<and> (hd v = CHR ''_'' \<or> isalpha (hd v))
                  \<and> list_all (\<lambda>c. c = CHR ''_'' \<or> isalpha c \<or> isdigit c) (tl v))
      else None)"

definition snprintf :: "nat \<Rightarrow> string \<Rightarrow> string" where
  "snprintf siz str = take (siz - 1) str"

definition optional_name :: "ckdb \<Rightarrow> string \<Rightarrow> int \<Rightarrow> string option \<Rightarrow> nat option" where
  "optional_name s nm len patt =
     (case find_transfer s nm of
        None \<Rightarrow> None
      | Some item \<Rightarrow>
          (let v = DATA_TRANSFER s item
           in if v = [] \<or> int (length v) < len then None
              else (case patt of
                      None \<Rightarrow> Some item
                    | Some p \<Rightarrow>
                        (case regcomp p of
                           None \<Rightarrow> None
                         | Some re \<Rightarrow> if re v then Some item else None))))"

definition require_name ::
  "ckdb \<Rightarrow> string \<Rightarrow> int \<Rightarrow> string option \<Rightarrow> nat \<Rightarrow> string + nat" where
  "require_name s nm len patt siz =
     (case find_transfer s nm of
        None \<Rightarrow> Inl (snprintf siz (''failed.missing '' @ nm))
      | Some item \<Rightarrow>
          (let v = DATA_TRANSFER s item
           in if v = [] \<or> int (length v) < len then Inl (snprintf siz (''failed.short '' @ nm))
              else (case patt of
                      None \<Rightarrow> Inr item
                    | Some p \<Rightarrow>
                        (case regcomp p of
                           None \<Rightarrow> Inl (snprintf siz (''failed.REC '' @ nm))
                         | Some re \<Rightarrow>
                             if re v then Inr item
                             else Inl (snprintf siz (''failed.invalid '' @ nm))))))"

text \<open>\<open>SIMPLEDATETRANSFER\<close> and \<open>HISTORYDATETRANSFER\<close> are the same text: the create
  fields of the row are overridden by the transfer fields that are present.\<close>

definition SIMPLEDATETRANSFER :: "ckdb \<Rightarrow> 'a simpledate_scheme \<Rightarrow> 'a simpledate_scheme" where
  "SIMPLEDATETRANSFER s row =
     (let row1 =
            (case optional_name s ''createdate'' 10 None of
               None \<Rightarrow> row
             | Some item \<Rightarrow>
                 (case sscanf [Conv_ld, Lit (CHR '',''), Conv_ld] (DATA_TRANSFER s item) of
                    [] \<Rightarrow> row
                  | [sec] \<Rightarrow> row\<lparr>createdate := \<lparr>tv_sec = sec, tv_usec = 0\<rparr>\<rparr>
                  | sec # usec # _ \<Rightarrow> row\<lparr>createdate := \<lparr>tv_sec = sec, tv_usec = usec\<rparr>\<rparr>));
          row2 =
            (case optional_name s ''createby'' 1 None of
               None \<Rightarrow> row1
             | Some item \<Rightarrow> row1\<lparr>createby := STRNCPYSIZ (TXT_SML + 1) (DATA_TRANSFER s item)\<rparr>);
          row3 =
            (case optional_name s ''createcode'' 1 None of
               None \<Rightarrow> row2
             | Some item \<Rightarrow> row2\<lparr>createcode := STRNCPYSIZ (TXT_MED + 1) (DATA_TRANSFER s item)\<rparr>)
      in case optional_name s ''createinet'' 1 None of
           None \<Rightarrow> row3
         | Some item \<Rightarrow> row3\<lparr>createinet := STRNCPYSIZ (TXT_MED + 1) (DATA_TRANSFER s item)\<rparr>)"

definition HISTORYDATETRANSFER :: "ckdb \<Rightarrow> 'a history_scheme \<Rightarrow> 'a history_scheme" where
  "HISTORYDATETRANSFER s row = SIMPLEDATETRANSFER s row"

section \<open>Users\<close>

text \<open>Fields of a stack variable that the comparator never reads are left at a fixed
  value in the lookup rows below.\<close>

definition tv_zero :: tv_t where "tv_zero = \<lparr>tv_sec = 0, tv_usec = 0\<rparr>"

definition users_look :: users where
  "users_look = \<lparr>createdate = tv_zero, createby = [], createcode = [], createinet = [],
     expirydate = tv_zero, users.userid = 0, username = [], emailaddress = [],
     joineddate = tv_zero, passwordhash = [], users.secondaryuserid = []\<rparr>"

definition find_users :: "ckdb \<Rightarrow> string \<Rightarrow> nat option" where
  "find_users s nm =
     find_in_ktree cmp_users (k_data (users_k s)) (users_root s)
       (users_look\<lparr>username := STRNCPYSIZ (TXT_BIG + 1) nm,
                   expirydate := \<lparr>tv_sec = tv_sec default_expiry, tv_usec = tv_usec default_expiry\<rparr>\<rparr>)"

definition DATA_USERS :: "ckdb \<Rightarrow> nat \<Rightarrow> users" where
  "DATA_USERS s item = k_data (users_k s) item"

text \<open>Modelled from the spec: the macro \<open>HASH_BER\<close> and the function \<open>__bin2hex\<close> come
  from headers that are not among the sources. The spec (section 3, invariant 3) gives
  the hash as \<open>h = ((h<<5)+h) + c\<close> over the characters and its rendering as lowercase
  hex, two digits for each of the 8 bytes; the hash starts from 0 and the bytes are
  taken in the order they lie in memory (least significant first).\<close>

definition HASH_BER :: "string \<Rightarrow> 64 word" where
  "HASH_BER key = foldl (\<lambda>h c. (push_bit 5 h + h) + of_nat (of_char c)) 0 key"

definition hexdigit :: "nat \<Rightarrow> char" where
  "hexdigit n = ''0123456789abcdef'' ! n"

definition bin2hex :: "nat list \<Rightarrow> string" where
  "bin2hex p = concat (map (\<lambda>b. [hexdigit (b mod 256 div 16), hexdigit (b mod 16)]) p)"

definition uint64_bytes :: "64 word \<Rightarrow> nat list" where
  "uint64_bytes h = map (\<lambda>i. unat (drop_bit (8 * i) h) mod 256) [0..<8]"

text \<open>\<open>users_add\<close>, the three lines that compute \<open>secondaryuserid\<close>: \<open>tohash\<close> has 64
  bytes.\<close>

definition users_secondaryuserid :: "string \<Rightarrow> string \<Rightarrow> string" where
  "users_secondaryuserid usernm email =
     (let tohash = snprintf 64 (usernm @ ''&#'' @ email);
          hash = HASH_BER tohash
      in bin2hex (uint64_bytes hash))"

text \<open>\<open>rnd\<close> is what \<open>rand()\<close> returns, a number from 0 to \<open>RAND_MAX\<close>.\<close>

definition users_add ::
  "ckdb \<Rightarrow> pgconn \<Rightarrow> nat \<Rightarrow> string \<Rightarrow> string \<Rightarrow> string \<Rightarrow> tv_t \<Rightarrow> string \<Rightarrow> string \<Rightarrow> string
     \<Rightarrow> bool \<times> ckdb \<times> pgconn" where
  "users_add s conn rnd usernm email pwhash now by code inet =
     (case k_unlink_head (users_k s) of
        (item, k1) \<Rightarrow>
          (case nextid conn ''userid'' (666 + int (rnd mod 334)) now by code inet of
             (uid, conn1) \<Rightarrow>
               (let row1 = (k_data k1 item)\<lparr>users.userid := uid\<rparr>
                in if uid = 0
                   then (False, s\<lparr>users_k := k_add_head_list item (set_data item row1 k1)\<rparr>, conn1)
                   else
                     (let row2 = row1\<lparr>username := STRNCPYSIZ (TXT_BIG + 1) usernm,
                                      emailaddress := STRNCPYSIZ (TXT_BIG + 1) email,
                                      passwordhash := STRNCPYSIZ (TXT_BIG + 1) pwhash,
                                      users.secondaryuserid := users_secondaryuserid usernm email\<rparr>;
                          row3 = HISTORYDATEINIT row2 now by code inet;
                          row4 = row3\<lparr>joineddate := \<lparr>tv_sec = tv_sec (createdate row3),
                                                        tv_usec = tv_usec (createdate row3)\<rparr>\<rparr>;
                          k2 = set_data item row4 k1
                      in case PQexecParams conn1 ''insert into users''
                                ([P_bigint (users.userid row4), P_str (username row4),
                                  P_str (emailaddress row4), P_tv (joineddate row4),
                                  P_str (passwordhash row4), P_str (users.secondaryuserid row4)]
                                 @ HISTORYDATEPARAMS row4) of
                           (rescode, conn2) \<Rightarrow>
                             if \<not> PGOK rescode
                             then (False, s\<lparr>users_k := k_add_head_list item k2\<rparr>, conn2)
                             else (True,
                                   s\<lparr>users_root := add_to_ktree cmp_users (k_data k2) (users_root s) item,
                                     userid_root := add_to_ktree cmp_userid (k_data k2) (userid_root s) item,
                                     users_k := k_add_head_store item k2\<rparr>,
                                   conn2)))))"

section \<open>Workers\<close>

definition workers_look :: workers where
  "workers_look = \<lparr>createdate = tv_zero, createby = [], createcode = [], createinet = [],
     expirydate = tv_zero, workerid = 0, workers.userid = 0, workers.workername = [],
     difficultydefault = 0, idlenotificationenabled = CHR 0x00, idlenotificationtime = 0\<rparr>"

definition find_workers :: "ckdb \<Rightarrow> int \<Rightarrow> string \<Rightarrow> nat option" where
  "find_workers s uid wname =
     find_in_ktree cmp_workers (k_data (workers_k s)) (workers_root s)
       (workers_look\<lparr>workers.userid := uid,
                     workers.workername := STRNCPYSIZ (TXT_BIG + 1) wname,
                     expirydate := \<lparr>tv_sec = tv_sec default_expiry, tv_usec = tv_usec default_expiry\<rparr>\<rparr>)"

text \<open>A \<open>char *\<close> argument that may be \<open>NULL\<close> is a \<open>string option\<close>. The test
  \<open>(p && *p)\<close>:\<close>

definition present :: "string option \<Rightarrow> bool" where
  "present p = (case p of None \<Rightarrow> False | Some str \<Rightarrow> str \<noteq> [])"

text \<open>The field settings of \<open>workers_add\<close>, from \<open>row->userid = userid\<close> to the line
  before \<open>HISTORYDATEINIT\<close>. \<open>row\<close> is the slot as \<open>k_unlink_head\<close> gave it.\<close>

definition workers_add_fields ::
  "workers \<Rightarrow> int \<Rightarrow> string \<Rightarrow> string option \<Rightarrow> string option \<Rightarrow> string option \<Rightarrow> workers" where
  "workers_add_fields row uid wname difficultydef idlenotenabled idlenottime =
     (let row1 = row\<lparr>workers.userid := uid,
                     workers.workername := STRNCPYSIZ (TXT_BIG + 1) wname\<rparr>;
          row2 =
            (if present difficultydef
             then (let diffdef = atoi (the difficultydef);
                       diffdef1 = (if diffdef < DIFFICULTYDEFAULT_MIN then DIFFICULTYDEFAULT_MIN else diffdef);
                       diffdef2 = (if diffdef1 > DIFFICULTYDEFAULT_MAX then DIFFICULTYDEFAULT_MAX else diffdef1)
                   in row1\<lparr>difficultydefault := diffdef2\<rparr>)
             else row1\<lparr>difficultydefault := DIFFICULTYDEFAULT_DEF\<rparr>);
          row3 =
            (if present idlenotenabled
             then (if tolower (hd (the idlenotenabled)) = hd IDLENOTIFICATIONENABLED
                   then row2\<lparr>idlenotificationenabled := hd IDLENOTIFICATIONENABLED\<rparr>
                   else row2\<lparr>idlenotificationenabled := hd IDLENOTIFICATIONDISABLED\<rparr>)
             else row2\<lparr>idlenotificationenabled := hd IDLENOTIFICATIONENABLED_DEF\<rparr>)
      in if present idlenottime
         then (let nottime = atoi (the idlenottime)
               in if nottime < DIFFICULTYDEFAULT_MIN
                  then row3\<lparr>idlenotificationenabled := hd IDLENOTIFICATIONDISABLED,
                            idlenotificationtime := DIFFICULTYDEFAULT_MIN\<rparr>
                  else if nottime > IDLENOTIFICATIONTIME_MAX
                  then row3\<lparr>idlenotificationtime := idlenotificationtime row3\<rparr>
                  else row3\<lparr>idlenotificationtime := nottime\<rparr>)
         else row3\<lparr>idlenotificationtime := IDLENOTIFICATIONTIME_DEF\<rparr>)"

definition workers_params :: "workers \<Rightarrow> param list" where
  "workers_params row =
     [P_bigint (workerid row), P_bigint (workers.userid row), P_str (workers.workername row),
      P_int (difficultydefault row),
      P_str (if idlenotificationenabled row = CHR 0x00 then [] else [idlenotificationenabled row]),
      P_int (idlenotificationtime row)] @ HISTORYDATEPARAMS row"

definition workers_add ::
  "ckdb \<Rightarrow> pgconn \<Rightarrow> int \<Rightarrow> string \<Rightarrow> string option \<Rightarrow> string option \<Rightarrow> string option
     \<Rightarrow> tv_t \<Rightarrow> string \<Rightarrow> string \<Rightarrow> string \<Rightarrow> nat option \<times> ckdb \<times> pgconn" where
  "workers_add s conn uid wname difficultydef idlenotenabled idlenottime now by code inet =
     (case k_unlink_head (workers_k s) of
        (item, k1) \<Rightarrow>
          (case nextid conn ''workerid'' 1 now by code inet of
             (wid, conn1) \<Rightarrow>
               (let row1 = (k_data k1 item)\<lparr>workerid := wid\<rparr>
                in if wid = 0
                   then (None, s\<lparr>workers_k := k_add_head_list item (set_data item row1 k1)\<rparr>, conn1)
                   else
                     (let row2 = workers_add_fields row1 uid wname difficultydef idlenotenabled idlenottime;
                          row3 = HISTORYDATEINIT row2 now by code inet;
                          k2 = set_data item row3 k1
                      in case PQexecParams conn1 ''insert into workers'' (workers_params row3) of
                           (rescode, conn2) \<Rightarrow>
                             if \<not> PGOK rescode
                             then (None, s\<lparr>workers_k := k_add_head_list item k2\<rparr>, conn2)
                             else (Some item,
                                   s\<lparr>workers_root :=
                                        add_to_ktree cmp_workers (k_data k2) (workers_root s) item,
                                     workers_k := k_add_head_store item k2\<rparr>,
                                   conn2)))))"

text \<open>\<open>new_worker\<close> is called once, by \<open>auths_add\<close>, with \<open>update\<close> false. The
  model is \<open>new_worker\<close> with that argument: the branch \<open>if (update)\<close> and
  \<open>workers_update\<close>, which nothing else calls, are never reached and are left out.\<close>

definition new_worker ::
  "ckdb \<Rightarrow> pgconn \<Rightarrow> int \<Rightarrow> string \<Rightarrow> string option \<Rightarrow> string option \<Rightarrow> string option
     \<Rightarrow> tv_t \<Rightarrow> string \<Rightarrow> string \<Rightarrow> string \<Rightarrow> nat option \<times> ckdb \<times> pgconn" where
  "new_worker s conn uid wname diffdef idlenotenabled idlenottime now by code inet =
     (case find_workers s uid wname of
        Some item \<Rightarrow> (Some item, s, conn)
      | None \<Rightarrow> workers_add s conn uid wname diffdef idlenotenabled idlenottime now by code inet)"

section \<open>Workinfo, shares and share errors\<close>

definition workinfo_look :: workinfo where
  "workinfo_look = \<lparr>createdate = tv_zero, createby = [], createcode = [], createinet = [],
     expirydate = tv_zero, workinfo.workinfoid = 0, workinfo.poolinstance = [],
     transactiontree = [], merklehash = [], prevhash = [], coinbase1 = [], coinbase2 = [],
     version = [], bits = [], ntime = [], reward = 0\<rparr>"

text \<open>\<open>find_workinfo\<close> sets only \<open>workinfoid\<close> in its stack variable, and
  \<open>cmp_workinfo\<close> reads \<open>expirydate\<close> as well: \<open>uninit\<close> is what that memory holds.\<close>

definition find_workinfo :: "ckdb \<Rightarrow> tv_t \<Rightarrow> int \<Rightarrow> nat option" where
  "find_workinfo s uninit wid =
     find_in_ktree cmp_workinfo (k_data (workinfo_k s)) (workinfo_root s)
       (workinfo_look\<lparr>workinfo.workinfoid := wid, expirydate := uninit\<rparr>)"

definition workinfo_add ::
  "ckdb \<Rightarrow> pgconn \<Rightarrow> cstr \<Rightarrow> cstr \<Rightarrow> cstr \<Rightarrow> cstr \<Rightarrow> cstr \<Rightarrow> cstr \<Rightarrow> cstr
     \<Rightarrow> cstr \<Rightarrow> cstr \<Rightarrow> cstr \<Rightarrow> cstr \<Rightarrow> tv_t \<Rightarrow> string \<Rightarrow> string \<Rightarrow> string
     \<Rightarrow> int \<times> ckdb \<times> pgconn" where
  "workinfo_add s conn workinfoidstr poolinst transtree merkle prevh cb1 cb2 vers bts ntm rew
       now by code inet =
     (case k_unlink_head (workinfo_k s) of
        (item, k1) \<Rightarrow>
          (let row1 = (k_data k1 item)
                 \<lparr>workinfo.workinfoid := atoll workinfoidstr,
                  workinfo.poolinstance := STRNCPYSIZ (TXT_BIG + 1) poolinst,
                  transactiontree := transtree,
                  merklehash := merkle,
                  prevhash := STRNCPYSIZ (TXT_BIG + 1) prevh,
                  coinbase1 := STRNCPYSIZ (TXT_BIG + 1) cb1,
                  coinbase2 := STRNCPYSIZ (TXT_BIG + 1) cb2,
                  version := STRNCPYSIZ (TXT_SML + 1) vers,
                  bits := STRNCPYSIZ (TXT_SML + 1) bts,
                  ntime := STRNCPYSIZ (TXT_SML + 1) ntm,
                  reward := atoll rew\<rparr>;
               row2 = HISTORYDATETRANSFER s (HISTORYDATEINIT row1 now by code inet);
               k2 = set_data item row2 k1;
               s1 = s\<lparr>heap_live := heap_live s + 2\<rparr>
           in case PQexecParams conn ''insert into workinfo''
                     ([P_bigint (workinfo.workinfoid row2), P_str (workinfo.poolinstance row2),
                       P_str (transactiontree row2), P_str (merklehash row2),
                       P_str (prevhash row2), P_str (coinbase1 row2), P_str (coinbase2 row2),
                       P_str (version row2), P_str (bits row2), P_str (ntime row2),
                       P_bigint (reward row2)] @ HISTORYDATEPARAMS row2) of
                (rescode, conn1) \<Rightarrow>
                  (let wid = (if \<not> PGOK rescode then - 1 else workinfo.workinfoid row2)
                   in if wid = - 1
                      then (wid,
                            s1\<lparr>heap_live := heap_live s1 - 2,
                               workinfo_k := k_add_head_list item k2\<rparr>,
                            conn1)
                      else (wid,
                            s1\<lparr>workinfo_root :=
                                  add_to_ktree cmp_workinfo (k_data k2) (workinfo_root s) item,
                               workinfo_k := k_add_head_store item k2\<rparr>,
                            conn1))))"

definition shares_add ::
  "ckdb \<Rightarrow> tv_t \<Rightarrow> cstr \<Rightarrow> cstr \<Rightarrow> cstr \<Rightarrow> cstr \<Rightarrow> cstr \<Rightarrow> cstr \<Rightarrow> cstr
     \<Rightarrow> cstr \<Rightarrow> cstr \<Rightarrow> cstr \<Rightarrow> tv_t \<Rightarrow> string \<Rightarrow> string \<Rightarrow> string \<Rightarrow> bool \<times> ckdb" where
  "shares_add s uninit workinfoidstr usernm wname clientidstr enon1 non2 non diffstr sdiffstr
       secuserid now by code inet =
     (case k_unlink_head (shares_k s) of
        (s_item, k1) \<Rightarrow>
          (case find_users s usernm of
             None \<Rightarrow> (False, s\<lparr>shares_k := k_add_head_list s_item k1\<rparr>)
           | Some u_item \<Rightarrow>
               (let row1 = (k_data k1 s_item)
                      \<lparr>shares.userid := users.userid (DATA_USERS s u_item),
                       shares.workinfoid := atoll workinfoidstr,
                       shares.workername := STRNCPYSIZ (TXT_BIG + 1) wname,
                       shares.clientid := atoi clientidstr,
                       shares.enonce1 := STRNCPYSIZ (TXT_SML + 1) enon1,
                       nonce2 := STRNCPYSIZ (TXT_BIG + 1) non2,
                       nonce := STRNCPYSIZ (TXT_SML + 1) non,
                       diff := Atof diffstr,
                       sdiff := Atof sdiffstr,
                       shares.secondaryuserid := STRNCPYSIZ (TXT_SML + 1) secuserid\<rparr>;
                    row2 = HISTORYDATETRANSFER s (HISTORYDATEINIT row1 now by code inet);
                    k2 = set_data s_item row2 k1
                in case find_workinfo s uninit (shares.workinfoid row2) of
                     None \<Rightarrow> (False, s\<lparr>shares_k := k_add_head_list s_item k2\<rparr>)
                   | Some w_item \<Rightarrow>
                       (case find_workers s (shares.userid row2) (shares.workername row2) of
                          None \<Rightarrow> (False, s\<lparr>shares_k := k_add_head_list s_item k2\<rparr>)
                        | Some w_item' \<Rightarrow>
                            (True,
                             s\<lparr>shares_root :=
                                  add_to_ktree cmp_shares (k_data k2) (shares_root s) s_item,
                               shares_k := k_add_head_store s_item k2\<rparr>)))))"

definition shareerrors_add ::
  "ckdb \<Rightarrow> tv_t \<Rightarrow> cstr \<Rightarrow> cstr \<Rightarrow> cstr \<Rightarrow> cstr \<Rightarrow> cstr \<Rightarrow> cstr \<Rightarrow> cstr
     \<Rightarrow> tv_t \<Rightarrow> string \<Rightarrow> string \<Rightarrow> string \<Rightarrow> bool \<times> ckdb" where
  "shareerrors_add s uninit workinfoidstr usernm wname clientidstr errnstr errorstr secuserid
       now by code inet =
     (case k_unlink_head (shareerrors_k s) of
        (s_item, k1) \<Rightarrow>
          (case find_users s usernm of
             None \<Rightarrow> (False, s\<lparr>shareerrors_k := k_add_head_list s_item k1\<rparr>)
           | Some u_item \<Rightarrow>
               (let row1 = (k_data k1 s_item)
                      \<lparr>shareerrors.userid := users.userid (DATA_USERS s u_item),
                       shareerrors.workinfoid := atoll workinfoidstr,
                       shareerrors.workername := STRNCPYSIZ (TXT_BIG + 1) wname,
                       shareerrors.clientid := atoi clientidstr,
                       shareerrors.errn := atoi errnstr,
                       shareerrors.error := STRNCPYSIZ (TXT_SML + 1) errorstr,
                       shareerrors.secondaryuserid := STRNCPYSIZ (TXT_SML + 1) secuserid\<rparr>;
                    row2 = HISTORYDATETRANSFER s (HISTORYDATEINIT row1 now by code inet);
                    k2 = set_data s_item row2 k1
                in case find_workinfo s uninit (shareerrors.workinfoid row2) of
                     None \<Rightarrow> (False, s\<lparr>shareerrors_k := k_add_head_list s_item k2\<rparr>)
                   | Some w_item \<Rightarrow>
                       (case find_workers s (shareerrors.userid row2) (shareerrors.workername row2) of
                          None \<Rightarrow> (False, s\<lparr>shareerrors_k := k_add_head_list s_item k2\<rparr>)
                        | Some w_item' \<Rightarrow>
                            (True,
                             s\<lparr>shareerrors_root :=
                                  add_to_ktree cmp_shareerrors (k_data k2) (shareerrors_root s) s_item,
                               shareerrors_k := k_add_head_store s_item k2\<rparr>)))))"

section \<open>Auths\<close>

definition auths_add ::
  "ckdb \<Rightarrow> pgconn \<Rightarrow> string \<Rightarrow> string \<Rightarrow> string \<Rightarrow> string \<Rightarrow> string
     \<Rightarrow> tv_t \<Rightarrow> string \<Rightarrow> string \<Rightarrow> string \<Rightarrow> string option \<times> ckdb \<times> pgconn" where
  "auths_add s conn usernm wname clientidstr enon1 uagent now by code inet =
     (case k_unlink_head (auths_k s) of
        (a_item, k1) \<Rightarrow>
          (case find_users s usernm of
             None \<Rightarrow> (None, s\<lparr>auths_k := k_add_head_list a_item k1\<rparr>, conn)
           | Some u_item \<Rightarrow>
               (let uid = users.userid (DATA_USERS s u_item)
                in case new_worker s conn uid wname (Some DIFFICULTYDEFAULT_DEF_STR)
                          (Some IDLENOTIFICATIONENABLED_DEF) (Some IDLENOTIFICATIONTIME_DEF_STR)
                          now by code inet of
                     (w_item, s1, conn1) \<Rightarrow>
                       (let row1 = (k_data k1 a_item)
                              \<lparr>auths.userid := uid,
                               auths.workername := STRNCPYSIZ (TXT_BIG + 1) wname,
                               auths.clientid := atoi clientidstr,
                               auths.enonce1 := STRNCPYSIZ (TXT_SML + 1) enon1,
                               useragent := STRNCPYSIZ (TXT_BIG + 1) uagent\<rparr>;
                            row2 = HISTORYDATETRANSFER s1 (HISTORYDATEINIT row1 now by code inet)
                        in case nextid conn1 ''authid'' 1 now by code inet of
                             (aid, conn2) \<Rightarrow>
                               (let row3 = row2\<lparr>authid := aid\<rparr>;
                                    k2 = set_data a_item row3 k1
                                in if aid = 0
                                   then (None, s1\<lparr>auths_k := k_add_head_list a_item k2\<rparr>, conn2)
                                   else
                                     (case PQexecParams conn2 ''insert into auths''
                                             ([P_bigint (authid row3), P_bigint (auths.userid row3),
                                               P_str (auths.workername row3), P_int (auths.clientid row3),
                                               P_str (auths.enonce1 row3), P_str (useragent row3)]
                                              @ HISTORYDATEPARAMS row3) of
                                        (rescode, conn3) \<Rightarrow>
                                          if \<not> PGOK rescode
                                          then (None, s1\<lparr>auths_k := k_add_head_list a_item k2\<rparr>, conn3)
                                          else (Some (users.secondaryuserid (DATA_USERS s1 u_item)),
                                                s1\<lparr>auths_root :=
                                                     add_to_ktree cmp_auths (k_data k2) (auths_root s1) a_item,
                                                   auths_k := k_add_head_store a_item k2\<rparr>,
                                                conn3)))))))"

section \<open>Poolstats\<close>

definition poolstats_look :: poolstats where
  "poolstats_look = \<lparr>createdate = tv_zero, createby = [], createcode = [], createinet = [],
     poolstats.poolinstance = [], when' = tv_zero, users' = 0, workers' = 0,
     hashrate = Atof [], hashrate5m = Atof [], hashrate1hr = Atof [], hashrate24hr = Atof []\<rparr>"

definition poolstats_add ::
  "ckdb \<Rightarrow> pgconn \<Rightarrow> bool \<Rightarrow> cstr \<Rightarrow> cstr \<Rightarrow> cstr \<Rightarrow> cstr \<Rightarrow> cstr \<Rightarrow> cstr \<Rightarrow> cstr
     \<Rightarrow> tv_t \<Rightarrow> string \<Rightarrow> string \<Rightarrow> string \<Rightarrow> bool \<times> ckdb \<times> pgconn" where
  "poolstats_add s conn store poolinst usersstr workersstr hr hr5m hr1hr hr24hr now by code inet =
     (case k_unlink_head (poolstats_k s) of
        (p_item, k1) \<Rightarrow>
          (let row1 = (k_data k1 p_item)
                 \<lparr>poolstats.poolinstance := STRNCPYSIZ (TXT_BIG + 1) poolinst,
                  users' := atoi usersstr,
                  workers' := atoi workersstr,
                  hashrate := Atof hr,
                  hashrate5m := Atof hr5m,
                  hashrate1hr := Atof hr1hr,
                  hashrate24hr := Atof hr24hr\<rparr>;
               row2 = SIMPLEDATETRANSFER s (SIMPLEDATEINIT row1 now by code inet);
               k2 = set_data p_item row2 k1
           in case (if store
                    then (case PQexecParams conn ''insert into poolstats''
                                 ([P_str (poolstats.poolinstance row2), P_int (users' row2),
                                   P_int (workers' row2), P_bigint_of_double (hashrate row2),
                                   P_bigint_of_double (hashrate5m row2),
                                   P_bigint_of_double (hashrate1hr row2),
                                   P_bigint_of_double (hashrate24hr row2)]
                                  @ SIMPLEDATEPARAMS row2) of
                            (rescode, conn1) \<Rightarrow> (PGOK rescode, conn1))
                    else (True, conn)) of
                (ok, conn1) \<Rightarrow>
                  if \<not> ok
                  then (False, s\<lparr>poolstats_k := k_add_head_list p_item k2\<rparr>, conn1)
                  else (True,
                        s\<lparr>poolstats_root :=
                             add_to_ktree cmp_poolstats (k_data k2) (poolstats_root s) p_item,
                          poolstats_k := k_add_head_store p_item k2\<rparr>,
                        conn1)))"

section \<open>The command handlers\<close>

text \<open>\<open>item = require_name(...); if (!item) return strdup(reply);\<close> with the rest of
  the handler as \<open>k\<close>. Every handler's \<open>reply\<close> buffer has 1024 bytes.\<close>

definition REQUIRE ::
  "ckdb \<Rightarrow> string \<Rightarrow> int \<Rightarrow> string option \<Rightarrow> (string \<Rightarrow> 'a) \<Rightarrow> (nat \<Rightarrow> 'a) \<Rightarrow> 'a" where
  "REQUIRE s nm len patt ret k =
     (case require_name s nm len patt 1024 of Inl reply \<Rightarrow> ret reply | Inr item \<Rightarrow> k item)"

definition FLDSEP :: char where "FLDSEP = CHR 0x02"

definition cmd_chkpass :: "ckdb \<Rightarrow> string" where
  "cmd_chkpass s =
     REQUIRE s ''username'' 3 (Some userpatt) (\<lambda>reply. reply) (\<lambda>i_username.
     REQUIRE s ''passwordhash'' 64 (Some hashpatt) (\<lambda>reply. reply) (\<lambda>i_passwordhash.
       (let ok = (case find_users s (DATA_TRANSFER s i_username) of
                    None \<Rightarrow> False
                  | Some u_item \<Rightarrow>
                      strcasecmp (DATA_TRANSFER s i_passwordhash)
                        (passwordhash (DATA_USERS s u_item)) = 0)
        in if \<not> ok then ''bad'' else ''ok'')))"

definition cmd_poolstats ::
  "(tm \<Rightarrow> int) \<Rightarrow> ckdb \<Rightarrow> pgconn \<Rightarrow> tv_t \<Rightarrow> string \<Rightarrow> string \<Rightarrow> string
     \<Rightarrow> fault + (string \<times> ckdb \<times> pgconn)" where
  "cmd_poolstats mktime s db now by code inet =
     (let ret = (\<lambda>reply. Inr (reply, s, db)) in
     REQUIRE s ''poolinstance'' 1 None ret (\<lambda>i_poolinstance.
     REQUIRE s ''users'' 1 None ret (\<lambda>i_users.
     REQUIRE s ''workers'' 1 None ret (\<lambda>i_workers.
     REQUIRE s ''hashrate'' 1 None ret (\<lambda>i_hashrate.
     REQUIRE s ''hashrate5m'' 1 None ret (\<lambda>i_hashrate5m.
     REQUIRE s ''hashrate1hr'' 1 None ret (\<lambda>i_hashrate1hr.
     REQUIRE s ''hashrate24hr'' 1 None ret (\<lambda>i_hashrate24hr.
       (let row = poolstats_look
                    \<lparr>poolstats.poolinstance := STRNCPYSIZ (TXT_BIG + 1) (DATA_TRANSFER s i_poolinstance),
                     createdate := \<lparr>tv_sec = tv_sec date_eot, tv_usec = tv_usec date_eot\<rparr>\<rparr>;
            add = (\<lambda>store.
                     case dbconnect db of
                       Inl f \<Rightarrow> Inl f
                     | Inr conn \<Rightarrow>
                         (case poolstats_add s conn store
                                 (DATA_TRANSFER s i_poolinstance) (DATA_TRANSFER s i_users)
                                 (DATA_TRANSFER s i_workers) (DATA_TRANSFER s i_hashrate)
                                 (DATA_TRANSFER s i_hashrate5m) (DATA_TRANSFER s i_hashrate1hr)
                                 (DATA_TRANSFER s i_hashrate24hr) now by code inet of
                            (ok, s1, conn1) \<Rightarrow>
                              if \<not> ok then Inr (''bad.DBE'', s1, conn1)
                              else Inr (snprintf 1024 ''added.ok'', s1, conn1)))
        in case find_before_in_ktree cmp_poolstats (k_data (poolstats_k s)) (poolstats_root s) row of
             None \<Rightarrow> add True
           | Some ps \<Rightarrow>
               REQUIRE s ''createdate'' 1 None ret (\<lambda>i_createdate.
                 case txt_to_tv mktime (DATA_TRANSFER s i_createdate) of
                   Inl f \<Rightarrow> Inl f
                 | Inr cdate \<Rightarrow>
                     if tvdiff cdate (createdate row) > STATS_PER then add True else add False))))))))))"

text \<open>\<open>data_to_buf\<close> for \<open>TYPE_TV\<close> prints the local time with \<open>strftime\<close>, which depends
  on the time zone of the process: \<open>strftime_local\<close> is that rendering of the seconds as
  \<open>%Y-%m-%d %H:%M:%S\<close>.\<close>

definition printf_06ld :: "int \<Rightarrow> string" where
  "printf_06ld v =
     (if v < 0
      then CHR ''-'' # replicate (5 - length (dec_nat (nat (- v)))) (CHR ''0'') @ dec_nat (nat (- v))
      else replicate (6 - length (dec_nat (nat v))) (CHR ''0'') @ dec_nat (nat v))"

definition tv_to_buf :: "(int \<Rightarrow> string) \<Rightarrow> tv_t \<Rightarrow> nat \<Rightarrow> string" where
  "tv_to_buf strftime_local tv siz =
     snprintf siz (snprintf siz (strftime_local (tv_sec tv)) @ ''.'' @ printf_06ld (tv_usec tv))"

definition payments_line :: "(int \<Rightarrow> string) \<Rightarrow> payments \<Rightarrow> nat \<Rightarrow> string" where
  "payments_line strftime_local row rows =
     snprintf 1024 (''paydate'' @ dec_int (int rows) @ ''='' @ tv_to_buf strftime_local (paydate row) 1024 @ [FLDSEP])
     @ snprintf 1024 (''payaddress'' @ dec_int (int rows) @ ''='' @ snprintf 1024 (payaddress row) @ [FLDSEP])
     @ snprintf 1024 (''amount'' @ dec_int (int rows) @ ''='' @ snprintf 1024 (dec_int (amount row)) @ [FLDSEP])"

definition cmd_payments :: "(int \<Rightarrow> string) \<Rightarrow> ckdb \<Rightarrow> string \<times> ckdb" where
  "cmd_payments strftime_local s =
     REQUIRE s ''username'' 3 (Some userpatt) (\<lambda>reply. (reply, s)) (\<lambda>i_username.
       case find_users s (DATA_TRANSFER s i_username) of
         None \<Rightarrow> (''bad'', s)
       | Some u_item \<Rightarrow>
           (case k_unlink_head (payments_k s) of
              (look, k1) \<Rightarrow>
                (let row = (k_data k1 look)
                       \<lparr>payments.userid := users.userid (DATA_USERS s u_item),
                        paydate := \<lparr>tv_sec = 0, tv_usec = 0\<rparr>\<rparr>;
                     k2 = set_data look row k1;
                     p_items = takeWhile
                       (\<lambda>p_item. payments.userid (k_data k2 p_item) = users.userid (DATA_USERS s u_item))
                       (find_after_in_ktree cmp_payments (k_data k2) (payments_root s) row);
                     buf = ''ok.''
                       @ concat (map (\<lambda>(rows, p_item). payments_line strftime_local (k_data k2 p_item) rows)
                                   (zip [0..<length p_items] p_items))
                       @ snprintf 1024 (''rows='' @ dec_int (int (length p_items)))
                 in (buf, s\<lparr>payments_k := k_add_head_list look k2\<rparr>))))"

definition METHOD_WORKINFO :: string where "METHOD_WORKINFO = ''workinfo''"
definition METHOD_SHARES :: string where "METHOD_SHARES = ''shares''"
definition METHOD_SHAREERRORS :: string where "METHOD_SHAREERRORS = ''shareerror''"
definition METHOD_AUTH :: string where "METHOD_AUTH = ''authorise''"

definition cmd_sharelog ::
  "ckdb \<Rightarrow> pgconn \<Rightarrow> tv_t \<Rightarrow> tv_t \<Rightarrow> string \<Rightarrow> string \<Rightarrow> string
     \<Rightarrow> fault + (string \<times> ckdb \<times> pgconn)" where
  "cmd_sharelog s db uninit now by code inet =
     (let ret = (\<lambda>reply. Inr (reply, s, db)) in
     REQUIRE s ''method'' 1 None ret (\<lambda>i_method.
       if strcasecmp (DATA_TRANSFER s i_method) METHOD_WORKINFO = 0 then
         REQUIRE s ''workinfoid'' 1 None ret (\<lambda>i_workinfoid.
         REQUIRE s ''poolinstance'' 1 None ret (\<lambda>i_poolinstance.
         REQUIRE s ''transactiontree'' 1 None ret (\<lambda>i_transactiontree.
         REQUIRE s ''merklehash'' 1 None ret (\<lambda>i_merklehash.
         REQUIRE s ''prevhash'' 1 None ret (\<lambda>i_prevhash.
         REQUIRE s ''coinbase1'' 1 None ret (\<lambda>i_coinbase1.
         REQUIRE s ''coinbase2'' 1 None ret (\<lambda>i_coinbase2.
         REQUIRE s ''version'' 1 None ret (\<lambda>i_version.
         REQUIRE s ''bits'' 1 None ret (\<lambda>i_bits.
         REQUIRE s ''ntime'' 1 None ret (\<lambda>i_ntime.
         REQUIRE s ''reward'' 1 None ret (\<lambda>i_reward.
           case dbconnect db of
             Inl f \<Rightarrow> Inl f
           | Inr conn \<Rightarrow>
               (case workinfo_add s conn
                       (DATA_TRANSFER s i_workinfoid) (DATA_TRANSFER s i_poolinstance)
                       (DATA_TRANSFER s i_transactiontree) (DATA_TRANSFER s i_merklehash)
                       (DATA_TRANSFER s i_prevhash) (DATA_TRANSFER s i_coinbase1)
                       (DATA_TRANSFER s i_coinbase2) (DATA_TRANSFER s i_version)
                       (DATA_TRANSFER s i_bits) (DATA_TRANSFER s i_ntime)
                       (DATA_TRANSFER s i_reward) now by code inet of
                  (wid, s1, conn1) \<Rightarrow>
                    if wid = - 1 then Inr (''bad.DBE'', s1, conn1)
                    else Inr (snprintf 1024 (''added.'' @ dec_int wid), s1, conn1)))))))))))))
       else if strcasecmp (DATA_TRANSFER s i_method) METHOD_SHARES = 0 then
         REQUIRE s ''workinfoid'' 1 None ret (\<lambda>i_workinfoid.
         REQUIRE s ''username'' 1 None ret (\<lambda>i_username.
         REQUIRE s ''workername'' 1 None ret (\<lambda>i_workername.
         REQUIRE s ''clientid'' 1 None ret (\<lambda>i_clientid.
         REQUIRE s ''enonce1'' 1 None ret (\<lambda>i_enonce1.
         REQUIRE s ''nonce2'' 1 None ret (\<lambda>i_nonce2.
         REQUIRE s ''nonce'' 1 None ret (\<lambda>i_nonce.
         REQUIRE s ''diff'' 1 None ret (\<lambda>i_diff.
         REQUIRE s ''sdiff'' 1 None ret (\<lambda>i_sdiff.
         REQUIRE s ''secondaryuserid'' 1 None ret (\<lambda>i_secondaryuserid.
           case shares_add s uninit
                  (DATA_TRANSFER s i_workinfoid) (DATA_TRANSFER s i_username)
                  (DATA_TRANSFER s i_workername) (DATA_TRANSFER s i_clientid)
                  (DATA_TRANSFER s i_enonce1) (DATA_TRANSFER s i_nonce2)
                  (DATA_TRANSFER s i_nonce) (DATA_TRANSFER s i_diff)
                  (DATA_TRANSFER s i_sdiff) (DATA_TRANSFER s i_secondaryuserid)
                  now by code inet of
             (ok, s1) \<Rightarrow>
               if \<not> ok then Inr (''bad.DATA'', s1, db)
               else Inr (snprintf 1024 (''added.'' @ DATA_TRANSFER s i_nonce), s1, db)))))))))))
       else if strcasecmp (DATA_TRANSFER s i_method) METHOD_SHAREERRORS = 0 then
         REQUIRE s ''workinfoid'' 1 None ret (\<lambda>i_workinfoid.
         REQUIRE s ''username'' 1 None ret (\<lambda>i_username.
         REQUIRE s ''workername'' 1 None ret (\<lambda>i_workername.
         REQUIRE s ''clientid'' 1 None ret (\<lambda>i_clientid.
         REQUIRE s ''errno'' 1 None ret (\<lambda>i_errn.
         REQUIRE s ''error'' 1 None ret (\<lambda>i_error.
         REQUIRE s ''secondaryuserid'' 1 None ret (\<lambda>i_secondaryuserid.
           case shareerrors_add s uninit
                  (DATA_TRANSFER s i_workinfoid) (DATA_TRANSFER s i_username)
                  (DATA_TRANSFER s i_workername) (DATA_TRANSFER s i_clientid)
                  (DATA_TRANSFER s i_errn) (DATA_TRANSFER s i_error)
                  (DATA_TRANSFER s i_secondaryuserid) now by code inet of
             (ok, s1) \<Rightarrow>
               if \<not> ok then Inr (''bad.DATA'', s1, db)
               else Inr (snprintf 1024 (''added.'' @ DATA_TRANSFER s i_username), s1, db))))))))
       else Inr (''bad.method'', s, db)))"

section \<open>The request parser\<close>

datatype cmd_values =
  CMD_UNSET | CMD_REPLY | CMD_SHUTDOWN | CMD_PING | CMD_LOGSHARE | CMD_AUTH | CMD_ADDUSER
| CMD_CHKPASS | CMD_POOLSTAT | CMD_NEWID | CMD_PAYMENTS | CMD_END

text \<open>The table \<open>cmds[]\<close> without its handler and access columns; the \<open>CMD_END\<close> row that
  closes it is the index past the list.\<close>

definition cmds :: "(cmd_values \<times> string) list" where
  "cmds = [(CMD_SHUTDOWN, ''shutdown''), (CMD_PING, ''ping''), (CMD_LOGSHARE, ''sharelog''),
           (CMD_AUTH, ''authorise''), (CMD_ADDUSER, ''adduser''), (CMD_CHKPASS, ''chkpass''),
           (CMD_POOLSTAT, ''poolstats''), (CMD_NEWID, ''newid''), (CMD_PAYMENTS, ''payments'')]"

definition ID_SIZ :: nat where "ID_SIZ = 31"
definition JSON_TRANSFER :: string where "JSON_TRANSFER = ''json=''"

text \<open>The JSON library is outside the program: \<open>json_loads\<close> is a parameter of
  \<open>breakdown\<close>, and a decoded value is what the library's accessors give. The members
  of an object stand in the order its iterator yields them. A real is given by the
  text that \<open>snprintf\<close> with \<open>%f\<close> prints for it.\<close>

datatype json_t =
  JSON_OBJECT "(string \<times> json_t) list"
| JSON_ARRAY "json_t list"
| JSON_STRING string
| JSON_INTEGER int
| JSON_REAL string
| JSON_TRUE
| JSON_FALSE
| JSON_NULL

text \<open>\<open>APPEND_REALLOC(_dst, _dstoff, _dstsiz, _src)\<close> on a buffer with its contents and
  size: the buffer grows by 1024 bytes at most once, and \<open>None\<close> is a \<open>strcpy\<close> past
  its end.\<close>

definition APPEND_REALLOC :: "string \<times> nat \<Rightarrow> string \<Rightarrow> (string \<times> nat) option" where
  "APPEND_REALLOC b src =
     (case b of
        (dst, dstsiz) \<Rightarrow>
          (let dstsiz' = (if length dst + length src \<ge> dstsiz then dstsiz + 1024 else dstsiz)
           in if length dst + length src \<ge> dstsiz' then None else Some (dst @ src, dstsiz')))"

text \<open>The loop over the elements of an array: the strings among them, joined by single
  spaces. When the array holds no string the C leaves the buffer unwritten; the model
  has the empty string there.\<close>

fun json_array_join :: "json_t list \<Rightarrow> bool \<Rightarrow> string \<times> nat \<Rightarrow> (string \<times> nat) option" where
  "json_array_join [] first b = Some b"
| "json_array_join (JSON_STRING json_str # es) first b =
     (case (if first then Some b else APPEND_REALLOC b '' '') of
        None \<Rightarrow> None
      | Some b1 \<Rightarrow>
          (case APPEND_REALLOC b1 json_str of
             None \<Rightarrow> None
           | Some b2 \<Rightarrow> json_array_join es False b2))"
| "json_array_join (e # es) first b = json_array_join es first b"

text \<open>The end of both loops: an item whose name is in the tree already goes back to
  the free list, its \<open>malloc\<close> data freed; any other goes into the tree and the store.\<close>

definition transfer_insert :: "ckdb \<Rightarrow> nat \<Rightarrow> ckdb" where
  "transfer_insert s item =
     (let d = k_data (transfer_k s)
      in case find_in_ktree cmp_transfer d (transfer_root s) (d item) of
           Some found \<Rightarrow>
             s\<lparr>heap_live := (if data (d item) \<noteq> Value_buf then heap_live s - 1 else heap_live s),
               transfer_k := k_add_head_list item (transfer_k s)\<rparr>
         | None \<Rightarrow>
             s\<lparr>transfer_root := add_to_ktree cmp_transfer d (transfer_root s) item,
               transfer_k := k_add_head_store item (transfer_k s)\<rparr>)"

definition json_transfer_member :: "ckdb \<Rightarrow> string \<times> json_t \<Rightarrow> fault + ckdb" where
  "json_transfer_member s m =
     (case m of
        (json_key, json_value) \<Rightarrow>
          (case k_unlink_head (transfer_k s) of
             (item, k1) \<Rightarrow>
               (let row = (k_data k1 item)\<lparr>name := STRNCPYSIZ (NAME_SIZE + 1) json_key\<rparr>;
                    put = (\<lambda>row' n. Inr (transfer_insert
                             (s\<lparr>transfer_k := set_data item row' k1, heap_live := heap_live s + n\<rparr>) item))
                in case json_value of
                     JSON_STRING json_str \<Rightarrow>
                       if length json_str \<ge> VALUE_SIZE + 1
                       then put (row\<lparr>data := Malloc json_str\<rparr>) 1
                       else put (row\<lparr>value' := STRNCPYSIZ (VALUE_SIZE + 1) json_str, data := Value_buf\<rparr>) 0
                   | JSON_INTEGER i \<Rightarrow>
                       put (row\<lparr>value' := snprintf (VALUE_SIZE + 1) (dec_int (int64 i)), data := Value_buf\<rparr>) 0
                   | JSON_REAL f \<Rightarrow>
                       put (row\<lparr>value' := snprintf (VALUE_SIZE + 1) f, data := Value_buf\<rparr>) 0
                   | JSON_ARRAY es \<Rightarrow>
                       (case json_array_join es True ([], 1024) of
                          None \<Rightarrow> Inl SEGV
                        | Some (str, len) \<Rightarrow> put (row\<lparr>data := Malloc str\<rparr>) 1)
                   | _ \<Rightarrow> Inr s)))"

fun json_transfer_loop :: "ckdb \<Rightarrow> (string \<times> json_t) list \<Rightarrow> fault + ckdb" where
  "json_transfer_loop s [] = Inr s"
| "json_transfer_loop s (m # ms) =
     (case json_transfer_member s m of Inl f \<Rightarrow> Inl f | Inr s1 \<Rightarrow> json_transfer_loop s1 ms)"

text \<open>The fields of a dot-framed data segment, as the \<open>while (next && *next)\<close> loop cuts
  them at each \<open>FLDSEP\<close>; nothing follows a separator at the very end.\<close>

function dot_fields :: "string \<Rightarrow> string list" where
  "dot_fields nxt =
     (if nxt = [] then []
      else takeWhile (\<lambda>c. c \<noteq> FLDSEP) nxt
           # (case dropWhile (\<lambda>c. c \<noteq> FLDSEP) nxt of [] \<Rightarrow> [] | sep # rest \<Rightarrow> dot_fields rest))"
  by pat_completeness auto
termination
proof (relation "measure length")
  fix nxt :: string and sep rest
  assume "dropWhile (\<lambda>c. c \<noteq> FLDSEP) nxt = sep # rest"
  then have "length (sep # rest) \<le> length nxt"
    by (metis length_dropWhile_le)
  then show "(rest, nxt) \<in> measure length" by simp
qed simp

declare dot_fields.simps [simp del]

definition dot_transfer_field :: "ckdb \<Rightarrow> string \<Rightarrow> ckdb" where
  "dot_transfer_field s fld =
     (let nm = takeWhile (\<lambda>c. c \<noteq> CHR ''='') fld;
          eq = (case dropWhile (\<lambda>c. c \<noteq> CHR ''='') fld of [] \<Rightarrow> [] | e # rest \<Rightarrow> rest)
      in case k_unlink_head (transfer_k s) of
           (item, k1) \<Rightarrow>
             (let row = (k_data k1 item)
                    \<lparr>name := STRNCPYSIZ (NAME_SIZE + 1) nm,
                     value' := STRNCPYSIZ (VALUE_SIZE + 1) eq,
                     data := Value_buf\<rparr>
              in transfer_insert (s\<lparr>transfer_k := set_data item row k1\<rparr>) item))"

text \<open>\<open>breakdown\<close> gives the command value, \<open>which_cmds\<close>, the \<open>id\<close> and the new state.
  A message with a command and no second dot has \<open>data == NULL\<close>, which \<open>strncmp\<close>
  then reads.\<close>

definition breakdown ::
  "(string \<Rightarrow> json_t option) \<Rightarrow> ckdb \<Rightarrow> string \<Rightarrow> fault + (cmd_values \<times> nat \<times> string \<times> ckdb)" where
  "breakdown json_loads s buf =
     (if CHR ''.'' \<notin> set buf
      then Inr (CMD_REPLY, 0, STRNCPYSIZ ID_SIZ buf, s)
      else
        (let ident = STRNCPYSIZ ID_SIZ (takeWhile (\<lambda>c. c \<noteq> CHR ''.'') buf);
             after_id = tl (dropWhile (\<lambda>c. c \<noteq> CHR ''.'') buf);
             cmd = takeWhile (\<lambda>c. c \<noteq> CHR ''.'') after_id;
             dat = (case dropWhile (\<lambda>c. c \<noteq> CHR ''.'') after_id of
                      [] \<Rightarrow> None | dot # rest \<Rightarrow> Some rest);
             which_cmds = length (takeWhile (\<lambda>c. strcasecmp cmd (snd c) \<noteq> 0) cmds)
         in if which_cmds = length cmds
            then Inr (CMD_REPLY, which_cmds, ident, s)
            else
              (case dat of
                 None \<Rightarrow> Inl SEGV
               | Some nxt \<Rightarrow>
                   if take (length JSON_TRANSFER) nxt = JSON_TRANSFER
                   then
                     (case json_loads (drop (length JSON_TRANSFER) nxt) of
                        None \<Rightarrow> Inr (CMD_REPLY, which_cmds, ident, s)
                      | Some json_data \<Rightarrow>
                          (case json_transfer_loop s
                                  (case json_data of JSON_OBJECT ms \<Rightarrow> ms | _ \<Rightarrow> []) of
                             Inl f \<Rightarrow> Inl f
                           | Inr s1 \<Rightarrow> Inr (fst (cmds ! which_cmds), which_cmds, ident, s1)))
                   else Inr (fst (cmds ! which_cmds), which_cmds, ident,
                             foldl dot_transfer_field s (dot_fields nxt)))))"

text \<open>The end of each round of \<open>listener\<close>: the transfer tree is emptied, the
  \<open>malloc\<close> data of the stored items is freed, and the store goes back to the free
  list.\<close>

definition listener_clear_transfer :: "ckdb \<Rightarrow> ckdb" where
  "listener_clear_transfer s =
     (let k = transfer_k s
      in s\<lparr>transfer_root := [],
           heap_live := heap_live s - length (filter (\<lambda>item. data (k_data k item) \<noteq> Value_buf) (k_store k)),
           transfer_k := k\<lparr>k_free := k_store k @ k_free k, k_store := []\<rparr>\<rparr>)"

section \<open>Example states\<close>

text \<open>A process that has just started on an empty database: no slot was ever used,
  and every slot reads as zeroes.\<close>

definition transfer_zero :: transfer where
  "transfer_zero = \<lparr>name = [], value' = [], data = Value_buf\<rparr>"

definition payments_zero :: payments where
  "payments_zero = \<lparr>createdate = tv_zero, createby = [], createcode = [], createinet = [],
     expirydate = tv_zero, paymentid = 0, payments.userid = 0, paydate = tv_zero,
     payaddress = [], originaltxn = [], amount = 0, committxn = [], commitblockhash = []\<rparr>"

definition shares_zero :: shares where
  "shares_zero = \<lparr>createdate = tv_zero, createby = [], createcode = [], createinet = [],
     expirydate = tv_zero, shares.workinfoid = 0, shares.userid = 0, shares.workername = [],
     shares.clientid = 0, shares.enonce1 = [], nonce2 = [], nonce = [], diff = Atof [],
     sdiff = Atof [], shares.errn = 0, shares.error = [], shares.secondaryuserid = []\<rparr>"

definition shareerrors_zero :: shareerrors where
  "shareerrors_zero = \<lparr>createdate = tv_zero, createby = [], createcode = [], createinet = [],
     expirydate = tv_zero, shareerrors.workinfoid = 0, shareerrors.userid = 0,
     shareerrors.workername = [], shareerrors.clientid = 0, shareerrors.errn = 0,
     shareerrors.error = [], shareerrors.secondaryuserid = []\<rparr>"

definition auths_zero :: auths where
  "auths_zero = \<lparr>createdate = tv_zero, createby = [], createcode = [], createinet = [],
     expirydate = tv_zero, authid = 0, auths.userid = 0, auths.workername = [],
     auths.clientid = 0, auths.enonce1 = [], useragent = []\<rparr>"

definition klist_new :: "'r \<Rightarrow> 'r klist" where
  "klist_new z = \<lparr>k_data = (\<lambda>item. z), k_free = [], k_store = [], k_total = 0\<rparr>"

definition ckdb_new :: ckdb where
  "ckdb_new =
     \<lparr>transfer_k = klist_new transfer_zero, transfer_root = [],
      users_k = klist_new users_look, users_root = [], userid_root = [],
      workers_k = klist_new workers_look, workers_root = [],
      payments_k = klist_new payments_zero, payments_root = [],
      workinfo_k = klist_new workinfo_look, workinfo_root = [],
      shares_k = klist_new shares_zero, shares_root = [],
      shareerrors_k = klist_new shareerrors_zero, shareerrors_root = [],
      auths_k = klist_new auths_zero, auths_root = [],
      poolstats_k = klist_new poolstats_look, poolstats_root = [],
      heap_live = 0\<rparr>"

text \<open>A database whose \<open>idcontrol\<close> has the three sequences, and the statuses its next
  statements end with.\<close>

definition pg_new :: "ExecStatusType list \<Rightarrow> pgconn" where
  "pg_new results =
     \<lparr>pg_up = True, pg_results = results,
      pg_idcontrol = [''userid'' \<mapsto> ''1000'', ''workerid'' \<mapsto> ''5'', ''authid'' \<mapsto> ''7''],
      pg_done = []\<rparr>"

definition now_ex :: tv_t where
  "now_ex = \<lparr>tv_sec = 1401580800, tv_usec = 0\<rparr>"

text \<open>The state after \<open>adduser\<close> for alice on a new process (scenario S1 of the spec,
  with \<open>rand()\<close> giving 0).\<close>

definition alice_row :: users where
  "alice_row =
     \<lparr>createdate = \<lparr>tv_sec = 1401580800, tv_usec = 0\<rparr>, createby = ''code'',
      createcode = ''listener'', createinet = ''127.0.0.1'',
      expirydate = \<lparr>tv_sec = 148204965966, tv_usec = 0\<rparr>,
      users.userid = 1666, username = ''alice'', emailaddress = ''alice@example.com'',
      joineddate = \<lparr>tv_sec = 1401580800, tv_usec = 0\<rparr>,
      passwordhash = ''aaaaaaaaaaaaaaaaaaaaaaaaaaaaaaaaaaaaaaaaaaaaaaaaaaaaaaaaaaaaaaaa'',
      users.secondaryuserid = ''bef77abfd9fa60df''\<rparr>"

definition ckdb_alice :: ckdb where
  "ckdb_alice =
     ckdb_new\<lparr>users_k := \<lparr>k_data = (\<lambda>item. users_look)(0 := alice_row), k_free = [],
                            k_store = [0], k_total = 1\<rparr>,
              users_root := [0], userid_root := [0]\<rparr>"

definition pg_ok3 :: "ExecStatusType list" where
  "pg_ok3 = [PGRES_TUPLES_OK, PGRES_COMMAND_OK, PGRES_COMMAND_OK]"

text \<open>A JSON library that decodes nothing, for the dot-framed examples, and the
  messages of scenario S2: the stored hash is 64 times \<open>a\<close>, the second message
  supplies 64 times \<open>A\<close>.\<close>

definition json_none :: "string \<Rightarrow> json_t option" where
  "json_none txt = None"

definition chkpass_same :: string where
  "chkpass_same = ''0002.chkpass.username=alice'' @ [FLDSEP]
     @ ''passwordhash=aaaaaaaaaaaaaaaaaaaaaaaaaaaaaaaaaaaaaaaaaaaaaaaaaaaaaaaaaaaaaaaa''"

definition chkpass_upper :: string where
  "chkpass_upper = ''0002.chkpass.username=alice'' @ [FLDSEP]
     @ ''passwordhash=AAAAAAAAAAAAAAAAAAAAAAAAAAAAAAAAAAAAAAAAAAAAAAAAAAAAAAAAAAAAAAAA''"

definition chkpass_bob :: string where
  "chkpass_bob = ''0002.chkpass.username=bob'' @ [FLDSEP]
     @ ''passwordhash=aaaaaaaaaaaaaaaaaaaaaaaaaaaaaaaaaaaaaaaaaaaaaaaaaaaaaaaaaaaaaaaa''"

definition payments_bob :: string where
  "payments_bob = ''0003.payments.username=bob''"

text \<open>The state a message leaves for its handler.\<close>

definition parsed :: "ckdb \<Rightarrow> string \<Rightarrow> ckdb" where
  "parsed s buf = (case breakdown json_none s buf of Inr (cmd, which_cmds, ident, s1) \<Rightarrow> s1 | Inl f \<Rightarrow> s)"

text \<open>A users row is a match of \<open>find_users\<close> for a name when it has the name (as the
  256 bytes of \<open>USERS.username\<close> hold it) and its expiry date is no time away from
  \<open>DEFAULT_EXPIRY\<close>: a live row.\<close>

definition users_match :: "ckdb \<Rightarrow> string \<Rightarrow> nat \<Rightarrow> bool" where
  "users_match s nm item =
     (username (DATA_USERS s item) = take 256 nm
      \<and> tvdiff default_expiry (expirydate (DATA_USERS s item)) = 0)"


text \<open>The rows a lookup can give. \<open>find_workers\<close>: the row has the user's id, as
  doubles compare, and the worker name, and its expiry date is no time away from
  \<open>DEFAULT_EXPIRY\<close>. \<open>find_workinfo\<close>: the row has the workinfoid, as doubles compare,
  and its expiry date is no time away from what the memory of the lookup key holds.\<close>

definition workers_match :: "ckdb \<Rightarrow> int \<Rightarrow> string \<Rightarrow> nat \<Rightarrow> bool" where
  "workers_match s uid wname item =
     (cast_double (workers.userid (k_data (workers_k s) item)) = cast_double uid
      \<and> workers.workername (k_data (workers_k s) item) = take 256 wname
      \<and> tvdiff default_expiry (expirydate (k_data (workers_k s) item)) = 0)"

definition workinfo_match :: "ckdb \<Rightarrow> tv_t \<Rightarrow> int \<Rightarrow> nat \<Rightarrow> bool" where
  "workinfo_match s uninit wid item =
     (cast_double (workinfo.workinfoid (k_data (workinfo_k s) item)) = cast_double wid
      \<and> tvdiff uninit (expirydate (k_data (workinfo_k s) item)) = 0)"





text \<open>The value of a transfer field, empty when the field is absent, and the test
  \<open>require_name(nm, 1, NULL, ...)\<close> passes for each name of a list.\<close>

definition field :: "ckdb \<Rightarrow> string \<Rightarrow> string" where
  "field s nm = (case find_transfer s nm of None \<Rightarrow> [] | Some item \<Rightarrow> DATA_TRANSFER s item)"

definition required :: "ckdb \<Rightarrow> string list \<Rightarrow> bool" where
  "required s nms = list_all (\<lambda>nm. field s nm \<noteq> []) nms"

text \<open>A process whose memory holds one poolstats row, for the pool instance \<open>main\<close>,
  created on 1 June 2014 at 00:00:00 UTC (scenario S5 of the spec after its first
  request), and the request that comes 600 seconds later.\<close>

definition main_row :: poolstats where
  "main_row =
     \<lparr>createdate = \<lparr>tv_sec = 1401580800, tv_usec = 0\<rparr>, createby = ''code'',
      createcode = ''listener'', createinet = ''127.0.0.1'',
      poolstats.poolinstance = ''main'', when' = \<lparr>tv_sec = 0, tv_usec = 0\<rparr>,
      users' = 10, workers' = 20, hashrate = Atof ''1.5'', hashrate5m = Atof ''1.4'',
      hashrate1hr = Atof ''1.3'', hashrate24hr = Atof ''1.2''\<rparr>"

definition ckdb_pool :: ckdb where
  "ckdb_pool =
     ckdb_new\<lparr>poolstats_k := \<lparr>k_data = (\<lambda>item. poolstats_look)(0 := main_row), k_free = [],
                                k_store = [0], k_total = 1\<rparr>,
              poolstats_root := [0]\<rparr>"

definition poolstats_600 :: string where
  "poolstats_600 = ''0006.poolstats.poolinstance=main'' @ [FLDSEP] @ ''users=11'' @ [FLDSEP]
     @ ''workers=21'' @ [FLDSEP] @ ''hashrate=2.5'' @ [FLDSEP] @ ''hashrate5m=2.4'' @ [FLDSEP]
     @ ''hashrate1hr=2.3'' @ [FLDSEP] @ ''hashrate24hr=2.2'' @ [FLDSEP]
     @ ''createdate=2014-06-01 00:10:00+00''"

definition now_600 :: tv_t where
  "now_600 = \<lparr>tv_sec = 1401581400, tv_usec = 0\<rparr>"

text \<open>A workinfo message whose \<open>workinfoid\<close> is -1, the value \<open>workinfo_add\<close> returns
  for a failure.\<close>

definition workinfo_minus_1 :: string where
  "workinfo_minus_1 = ''0007.sharelog.method=workinfo'' @ [FLDSEP] @ ''workinfoid=-1'' @ [FLDSEP]
     @ ''poolinstance=main'' @ [FLDSEP] @ ''transactiontree=00'' @ [FLDSEP]
     @ ''merklehash=11'' @ [FLDSEP] @ ''prevhash=22'' @ [FLDSEP] @ ''coinbase1=33'' @ [FLDSEP]
     @ ''coinbase2=44'' @ [FLDSEP] @ ''version=2'' @ [FLDSEP] @ ''bits=1d00ffff'' @ [FLDSEP]
     @ ''ntime=538a6b00'' @ [FLDSEP] @ ''reward=2500000000''"

section \<open>Theorems\<close>

text \<open>
  C9. Every timestamp string that \<open>txt_to_data\<close> accepts for \<open>TYPE_TV\<close> is parsed into a
  broken-down time and microseconds; when the time in seconds that \<open>mktime\<close> gives for
  it exceeds \<open>COMPARE_EXPIRY\<close> (148204512000) the stored value is \<open>DEFAULT_EXPIRY\<close>
  (148204965966 seconds, 0 microseconds), otherwise the seconds and the microseconds
  are stored as parsed. A string that does not parse ends the process.
\<close>

theorem txt_to_tv_compare_expiry:
  "(scan_tv fld = None \<and> txt_to_tv mktime fld = Inl QUIT) \<or>
   (\<exists>t uS. scan_tv fld = Some (t, uS) \<and>
      (if mktime t > 148204512000
       then txt_to_tv mktime fld = Inr \<lparr>tv_sec = 148204965966, tv_usec = 0\<rparr>
       else txt_to_tv mktime fld = Inr \<lparr>tv_sec = mktime t, tv_usec = uS\<rparr>))"
  by (cases "scan_tv fld")
     (auto simp: txt_to_tv_def default_expiry_def DEFAULT_EXPIRY_def COMPARE_EXPIRY_def Let_def)

lemmas scan_tv_eval =
  scan_tv_def fmt_tv_def fmt_tv_uS_def scan_int_def isspace_def isdigit_def digits_val_def
  conv_u_def conv_ld_def

lemmas mktime_utc_eval = mktime_utc_def make_tm_def int32_def days_from_civil_def

theorem txt_to_tv_compare_expiry_witness:
  "txt_to_tv mktime_utc ''6666-06-06 06:06:06+00'' = Inr \<lparr>tv_sec = 148204965966, tv_usec = 0\<rparr> \<and>
   txt_to_tv mktime_utc ''6666-06-02 00:00:00+00'' = Inr \<lparr>tv_sec = 148204965966, tv_usec = 0\<rparr> \<and>
   txt_to_tv mktime_utc ''2014-06-01 12:00:00.5+00'' = Inr \<lparr>tv_sec = 1401624000, tv_usec = 5\<rparr> \<and>
   txt_to_tv mktime_utc ''1401624000,5'' = Inl QUIT"
proof -
  have a: "scan_tv ''6666-06-06 06:06:06+00'' = Some (make_tm 6666 6 6 6 6 6, 0)"
    by (simp add: scan_tv_eval)
  have b: "scan_tv ''6666-06-02 00:00:00+00'' = Some (make_tm 6666 6 2 0 0 0, 0)"
    by (simp add: scan_tv_eval)
  have c: "scan_tv ''2014-06-01 12:00:00.5+00'' = Some (make_tm 2014 6 1 12 0 0, 5)"
    by (simp add: scan_tv_eval)
  have d: "scan_tv ''1401624000,5'' = None"
    by (simp add: scan_tv_eval)
  have ma: "mktime_utc (make_tm 6666 6 6 6 6 6) = 148204965966"
    by (simp add: mktime_utc_eval)
  have mb: "mktime_utc (make_tm 6666 6 2 0 0 0) = 148204598400"
    by (simp add: mktime_utc_eval)
  have mc: "mktime_utc (make_tm 2014 6 1 12 0 0) = 1401624000"
    by (simp add: mktime_utc_eval)
  show ?thesis
    using txt_to_tv_compare_expiry [of "''6666-06-06 06:06:06+00''" mktime_utc]
      txt_to_tv_compare_expiry [of "''6666-06-02 00:00:00+00''" mktime_utc]
      txt_to_tv_compare_expiry [of "''2014-06-01 12:00:00.5+00''" mktime_utc]
      txt_to_tv_compare_expiry [of "''1401624000,5''" mktime_utc]
    by (simp add: a b c d ma mb mc)
qed

subsection \<open>Evaluation rules and small facts\<close>

lemmas klist_eval =
  k_unlink_head_def k_add_head_list_def k_add_head_store_def set_data_def klist_new_def

lemmas text_eval =
  STRNCPYSIZ_def snprintf_def TXT_BIG_def TXT_MED_def TXT_SML_def NAME_SIZE_def VALUE_SIZE_def
  atoll_def atoi_def int32_def int64_def scan_int_def isspace_def isdigit_def digits_val_def
  conv_ld_def dec_int_def dec_nat.simps char_of_eq_iff

lemmas pg_eval = nextid_def PQexec_def PQexecParams_def PGOK_def pg_new_def dbconnect_def

lemma length_bin2hex: "length (bin2hex p) = 2 * length p"
  by (induction p) (simp_all add: bin2hex_def)

lemma length_uint64_bytes: "length (uint64_bytes h) = 8"
  by (simp add: uint64_bytes_def)

lemma hexdigit_lower:
  assumes "n < 16"
  shows "hexdigit n \<in> set ''0123456789abcdef''"
  unfolding hexdigit_def using assms by (intro nth_mem) simp

lemma bin2hex_lower: "list_all (\<lambda>c. c \<in> set ''0123456789abcdef'') (bin2hex p)"
proof (induction p)
  case Nil
  then show ?case by (simp add: bin2hex_def)
next
  case (Cons b p)
  have hi: "hexdigit (b mod 256 div 16) \<in> set ''0123456789abcdef''"
    by (rule hexdigit_lower) (simp add: div_less_iff_less_mult)
  have lo: "hexdigit (b mod 16) \<in> set ''0123456789abcdef''"
    by (rule hexdigit_lower) simp
  from Cons hi lo show ?case by (simp add: bin2hex_def)
qed

lemma users_add_new_row:
  assumes "users_add s conn rnd usernm email pwhash now by code inet = (True, s', conn')"
  shows "\<exists>item rest. k_store (users_k s') = item # rest
           \<and> users.secondaryuserid (k_data (users_k s') item) = users_secondaryuserid usernm email"
  using assms
  by (auto simp: users_add_def Let_def klist_eval HISTORYDATEINIT_def
           split: prod.splits if_splits list.splits)

text \<open>
  C4 (as amended). The \<open>secondaryuserid\<close> of every row that \<open>users_add\<close> creates is a
  function of \<open>username\<close> and \<open>emailaddress\<close> alone: the hash \<open>h = ((h<<5)+h) + c\<close> over
  the first 63 bytes of \<open>username&#emailaddress\<close> (the buffer \<open>tohash\<close> has 64 bytes),
  rendered as exactly 16 lowercase hexadecimal characters.
\<close>

theorem users_add_secondaryuserid:
  assumes "users_add s conn rnd usernm email pwhash now by code inet = (True, s', conn')"
  shows "users.secondaryuserid (k_data (users_k s') (hd (k_store (users_k s'))))
           = bin2hex (uint64_bytes (HASH_BER (take 63 (usernm @ ''&#'' @ email))))
       \<and> length (users.secondaryuserid (k_data (users_k s') (hd (k_store (users_k s'))))) = 16
       \<and> list_all (\<lambda>c. c \<in> set ''0123456789abcdef'')
            (users.secondaryuserid (k_data (users_k s') (hd (k_store (users_k s')))))"
proof -
  from users_add_new_row [OF assms] obtain item rest where
    st: "k_store (users_k s') = item # rest" and
    sid: "users.secondaryuserid (k_data (users_k s') item) = users_secondaryuserid usernm email"
    by blast
  have eq: "users_secondaryuserid usernm email
      = bin2hex (uint64_bytes (HASH_BER (take 63 (usernm @ ''&#'' @ email))))"
    by (simp add: users_secondaryuserid_def snprintf_def)
  have hd: "users.secondaryuserid (k_data (users_k s') (hd (k_store (users_k s'))))
      = bin2hex (uint64_bytes (HASH_BER (take 63 (usernm @ ''&#'' @ email))))"
    by (simp add: st sid eq)
  show ?thesis
    unfolding hd
    by (intro conjI refl bin2hex_lower) (simp add: length_bin2hex length_uint64_bytes)
qed

lemmas hash_eval =
  users_secondaryuserid_def snprintf_def HASH_BER_def uint64_bytes_def bin2hex_def hexdigit_def
  upt_rec drop_bit_eq_div unat_div

theorem users_add_secondaryuserid_witness:
  "(case users_add ckdb_new (pg_new [PGRES_TUPLES_OK, PGRES_COMMAND_OK, PGRES_COMMAND_OK]) 0
       ''alice'' ''alice@example.com'' ''aa'' now_ex ''code'' ''listener'' ''127.0.0.1'' of
      (ok, s', conn') \<Rightarrow>
        ok \<and> users.secondaryuserid (k_data (users_k s') (hd (k_store (users_k s'))))
               = bin2hex (uint64_bytes (HASH_BER ''alice&#alice@example.com''))
           \<and> length (users.secondaryuserid (k_data (users_k s') (hd (k_store (users_k s'))))) = 16)"
proof (cases "users_add ckdb_new (pg_new [PGRES_TUPLES_OK, PGRES_COMMAND_OK, PGRES_COMMAND_OK]) 0
       ''alice'' ''alice@example.com'' ''aa'' now_ex ''code'' ''listener'' ''127.0.0.1''")
  case (fields ok s' conn')
  have "fst (users_add ckdb_new (pg_new [PGRES_TUPLES_OK, PGRES_COMMAND_OK, PGRES_COMMAND_OK]) 0
       ''alice'' ''alice@example.com'' ''aa'' now_ex ''code'' ''listener'' ''127.0.0.1'')"
    by (simp add: users_add_def ckdb_new_def klist_eval pg_eval text_eval Let_def)
  with fields have e:
    "users_add ckdb_new (pg_new [PGRES_TUPLES_OK, PGRES_COMMAND_OK, PGRES_COMMAND_OK]) 0
       ''alice'' ''alice@example.com'' ''aa'' now_ex ''code'' ''listener'' ''127.0.0.1''
     = (True, s', conn')"
    by simp
  note t = users_add_secondaryuserid [OF e]
  from t have 1: "users.secondaryuserid (k_data (users_k s') (hd (k_store (users_k s'))))
      = bin2hex (uint64_bytes (HASH_BER ''alice&#alice@example.com''))"
    by simp
  from t have 2: "length (users.secondaryuserid (k_data (users_k s') (hd (k_store (users_k s'))))) = 16"
    by blast
  show ?thesis
    unfolding e prod.case by (intro conjI TrueI 1 2)
qed

text \<open>The claim as stated fails where \<open>username&#emailaddress\<close> is longer than 63
  bytes: with a user name of 61 characters the e-mail address is not hashed at all.\<close>

theorem users_secondaryuserid_counterexample:
  "users_secondaryuserid ''aaaaaaaaaaaaaaaaaaaaaaaaaaaaaaaaaaaaaaaaaaaaaaaaaaaaaaaaaaaaa'' ''b@c.de''
     \<noteq> bin2hex (uint64_bytes (HASH_BER
           (''aaaaaaaaaaaaaaaaaaaaaaaaaaaaaaaaaaaaaaaaaaaaaaaaaaaaaaaaaaaaa'' @ ''&#'' @ ''b@c.de'')))
   \<and> users_secondaryuserid ''aaaaaaaaaaaaaaaaaaaaaaaaaaaaaaaaaaaaaaaaaaaaaaaaaaaaaaaaaaaaa'' ''b@c.de''
     = users_secondaryuserid ''aaaaaaaaaaaaaaaaaaaaaaaaaaaaaaaaaaaaaaaaaaaaaaaaaaaaaaaaaaaaa'' ''x@y.zz''"
  by (simp add: hash_eval)

lemma isdigit_char_of: "d < 10 \<Longrightarrow> isdigit (char_of (48 + d :: nat))"
  by (simp add: isdigit_def Let_def take_bit_eq_mod)

lemma dec_nat_digits: "list_all isdigit (dec_nat n)"
proof (induction n rule: dec_nat.induct)
  case (1 n)
  show ?case
  proof (cases "n < 10")
    case True
    then show ?thesis by (subst dec_nat.simps) (simp add: isdigit_char_of)
  next
    case False
    with 1 show ?thesis by (subst dec_nat.simps) (simp add: isdigit_char_of)
  qed
qed

lemma dec_nat_not_Nil: "dec_nat n \<noteq> []"
  by (subst dec_nat.simps) simp

lemma digits_val_snoc: "digits_val (ds @ [c]) = 10 * digits_val ds + (of_char c - 48)"
  by (simp add: digits_val_def)

lemma of_char_digit: "d < 10 \<Longrightarrow> (of_char (char_of (48 + d :: nat)) :: nat) - 48 = d"
  by (simp add: take_bit_eq_mod)

lemma digits_val_dec_nat: "digits_val (dec_nat n) = n"
proof (induction n rule: dec_nat.induct)
  case (1 n)
  show ?case
  proof (cases "n < 10")
    case True
    then show ?thesis
      by (subst dec_nat.simps) (simp add: digits_val_def of_char_digit)
  next
    case False
    with 1 have "digits_val (dec_nat (n div 10)) = n div 10" by simp
    with False show ?thesis
      by (subst dec_nat.simps) (simp add: digits_val_snoc of_char_digit)
  qed
qed

lemma isdigit_not_space: "isdigit c \<Longrightarrow> \<not> isspace c"
  by (auto simp: isdigit_def isspace_def Let_def)

lemma isdigit_not_sign: "isdigit c \<Longrightarrow> c \<noteq> CHR ''-'' \<and> c \<noteq> CHR ''+''"
  by (auto simp: isdigit_def Let_def)

lemma scan_int_digits:
  assumes "ds \<noteq> []" "list_all isdigit ds"
  shows "scan_int ds = Some (False, digits_val ds, [])"
proof -
  from assms have c: "isdigit (hd ds)" by (cases ds) auto
  have 1: "dropWhile isspace ds = ds"
    using c assms(1) by (cases ds) (simp_all add: isdigit_not_space)
  have 2: "takeWhile isdigit ds = ds" "dropWhile isdigit ds = []"
    using assms(2) by (simp_all add: list_all_iff)
  show ?thesis
    unfolding scan_int_def Let_def 1
    using isdigit_not_sign [OF c] assms(1) by (simp add: 2)
qed

lemma scan_int_minus_digits:
  assumes "ds \<noteq> []" "list_all isdigit ds"
  shows "scan_int (CHR ''-'' # ds) = Some (True, digits_val ds, [])"
proof -
  have 2: "takeWhile isdigit ds = ds" "dropWhile isdigit ds = []"
    using assms(2) by (simp_all add: list_all_iff)
  show ?thesis
    using assms(1) by (simp add: scan_int_def isspace_def Let_def 2)
qed

lemma atoll_dec_int:
  assumes "- (2 ^ 63) \<le> v" "v < 2 ^ 63"
  shows "atoll (dec_int v) = v"
proof (cases "v < 0")
  case True
  then show ?thesis
    using assms
    by (simp add: atoll_def dec_int_def scan_int_minus_digits dec_nat_not_Nil dec_nat_digits
        digits_val_dec_nat conv_ld_def)
next
  case False
  then show ?thesis
    using assms
    by (simp add: atoll_def dec_int_def scan_int_digits dec_nat_not_Nil dec_nat_digits
        digits_val_dec_nat conv_ld_def)
qed

lemma int64_id: "- (2 ^ 63) \<le> v \<Longrightarrow> v < 2 ^ 63 \<Longrightarrow> int64 v = v"
  by (simp add: int64_def)

lemma atoll_range: "- (2 ^ 63) \<le> atoll str \<and> atoll str < 2 ^ 63"
  by (auto simp: atoll_def conv_ld_def split: option.splits)

lemma nextid_result:
  assumes "nextid conn idname inc now by code inet = (v, conn')" "v \<noteq> 0"
  shows "\<exists>field. pg_idcontrol conn idname = Some field \<and> v = int64 (atoll field + inc)
           \<and> pg_idcontrol conn' = (pg_idcontrol conn)(idname \<mapsto> dec_int v)"
  using assms
  by (auto simp: nextid_def PQexec_def PQexecParams_def Let_def
           split: list.splits option.splits if_splits prod.splits)

lemma nextid_idcontrol_other:
  assumes "nextid conn idname inc now by code inet = (v, conn')" "idname' \<noteq> idname"
  shows "pg_idcontrol conn' idname' = pg_idcontrol conn idname'"
  using assms
  by (auto simp: nextid_def PQexec_def PQexecParams_def Let_def
           split: list.splits option.splits if_splits prod.splits)

lemma PQexecParams_idcontrol:
  "PQexecParams conn qry params = (res, conn') \<Longrightarrow> pg_idcontrol conn' = pg_idcontrol conn"
  by (auto simp: PQexecParams_def split: list.splits)

lemma users_add_userid:
  assumes "users_add s conn rnd usernm email pwhash now by code inet = (True, s', conn')"
  shows "\<exists>field. pg_idcontrol conn ''userid'' = Some field
           \<and> users.userid (k_data (users_k s') (hd (k_store (users_k s'))))
               = int64 (atoll field + (666 + int (rnd mod 334)))
           \<and> pg_idcontrol conn' ''userid''
               = Some (dec_int (int64 (atoll field + (666 + int (rnd mod 334)))))"
proof -
  obtain item k1 where u: "k_unlink_head (users_k s) = (item, k1)" by (cases "k_unlink_head (users_k s)")
  obtain uid conn1 where n: "nextid conn ''userid'' (666 + int (rnd mod 334)) now by code inet = (uid, conn1)"
    by (cases "nextid conn ''userid'' (666 + int (rnd mod 334)) now by code inet")
  from assms u n have nz: "uid \<noteq> 0"
    by (auto simp: users_add_def Let_def split: if_splits prod.splits)
  from nextid_result [OF n nz] obtain field where
    f: "pg_idcontrol conn ''userid'' = Some field" and
    v: "uid = int64 (atoll field + (666 + int (rnd mod 334)))" and
    c: "pg_idcontrol conn1 = (pg_idcontrol conn)(''userid'' \<mapsto> dec_int uid)"
    by blast
  from assms u n nz have row: "users.userid (k_data (users_k s') (hd (k_store (users_k s')))) = uid"
    by (auto simp: users_add_def Let_def klist_eval HISTORYDATEINIT_def split: if_splits prod.splits)
  from assms u n nz have "pg_idcontrol conn' = pg_idcontrol conn1"
    by (auto simp: users_add_def Let_def split: if_splits prod.splits dest: PQexecParams_idcontrol)
  with f v c row show ?thesis by simp
qed

lemma workers_add_workerid:
  assumes "workers_add s conn uid wname dd ie it now by code inet = (Some item, s', conn')"
  shows "\<exists>field. pg_idcontrol conn ''workerid'' = Some field
           \<and> item = hd (k_store (workers_k s'))
           \<and> workerid (k_data (workers_k s') item) = int64 (atoll field + 1)
           \<and> pg_idcontrol conn' ''workerid'' = Some (dec_int (int64 (atoll field + 1)))"
proof -
  obtain it0 k1 where u: "k_unlink_head (workers_k s) = (it0, k1)" by (cases "k_unlink_head (workers_k s)")
  obtain wid conn1 where n: "nextid conn ''workerid'' 1 now by code inet = (wid, conn1)"
    by (cases "nextid conn ''workerid'' 1 now by code inet")
  from assms u n have nz: "wid \<noteq> 0"
    by (auto simp: workers_add_def Let_def split: if_splits prod.splits)
  from nextid_result [OF n nz] obtain field where
    f: "pg_idcontrol conn ''workerid'' = Some field" and
    v: "wid = int64 (atoll field + 1)" and
    c: "pg_idcontrol conn1 = (pg_idcontrol conn)(''workerid'' \<mapsto> dec_int wid)"
    by blast
  from assms u n nz have row: "item = hd (k_store (workers_k s'))"
      "workerid (k_data (workers_k s') item) = wid"
    by (auto simp: workers_add_def Let_def klist_eval HISTORYDATEINIT_def workers_add_fields_def
             split: if_splits prod.splits)
  from assms u n nz have "pg_idcontrol conn' = pg_idcontrol conn1"
    by (auto simp: workers_add_def Let_def split: if_splits prod.splits dest: PQexecParams_idcontrol)
  with f v c row show ?thesis by simp
qed

lemma workers_add_idcontrol_other:
  assumes "workers_add s conn uid wname dd ie it now by code inet = (r, s', conn')"
    and "idname \<noteq> ''workerid''"
  shows "pg_idcontrol conn' idname = pg_idcontrol conn idname"
proof -
  obtain wid conn1 where n: "nextid conn ''workerid'' 1 now by code inet = (wid, conn1)"
    by (cases "nextid conn ''workerid'' 1 now by code inet")
  from assms(1) n have "pg_idcontrol conn' = pg_idcontrol conn1"
    by (auto simp: workers_add_def Let_def split: if_splits prod.splits dest: PQexecParams_idcontrol)
  with nextid_idcontrol_other [OF n assms(2)] show ?thesis by simp
qed

lemma new_worker_idcontrol_other:
  assumes "new_worker s conn uid wname dd ie it now by code inet = (r, s', conn')"
    and "idname \<noteq> ''workerid''"
  shows "pg_idcontrol conn' idname = pg_idcontrol conn idname"
  using assms
  by (auto simp: new_worker_def split: option.splits dest: workers_add_idcontrol_other)

lemma auths_add_authid:
  assumes "auths_add s conn usernm wname cid en ua now by code inet = (Some sec, s', conn')"
  shows "\<exists>field. pg_idcontrol conn ''authid'' = Some field
           \<and> authid (k_data (auths_k s') (hd (k_store (auths_k s')))) = int64 (atoll field + 1)
           \<and> pg_idcontrol conn' ''authid'' = Some (dec_int (int64 (atoll field + 1)))"
proof -
  obtain a_item k1 where u: "k_unlink_head (auths_k s) = (a_item, k1)" by (cases "k_unlink_head (auths_k s)")
  from assms u obtain u_item where fu: "find_users s usernm = Some u_item"
    by (auto simp: auths_add_def split: option.splits)
  obtain w s1 conn1 where nw: "new_worker s conn (users.userid (DATA_USERS s u_item)) wname
       (Some DIFFICULTYDEFAULT_DEF_STR) (Some IDLENOTIFICATIONENABLED_DEF)
       (Some IDLENOTIFICATIONTIME_DEF_STR) now by code inet = (w, s1, conn1)"
    by (metis surj_pair)
  obtain aid conn2 where n: "nextid conn1 ''authid'' 1 now by code inet = (aid, conn2)"
    by (cases "nextid conn1 ''authid'' 1 now by code inet")
  from assms u fu nw n have nz: "aid \<noteq> 0"
    by (auto simp: auths_add_def Let_def split: if_splits prod.splits)
  from nextid_result [OF n nz] obtain field where
    f: "pg_idcontrol conn1 ''authid'' = Some field" and
    v: "aid = int64 (atoll field + 1)" and
    c: "pg_idcontrol conn2 = (pg_idcontrol conn1)(''authid'' \<mapsto> dec_int aid)"
    by blast
  have f0: "pg_idcontrol conn ''authid'' = Some field"
    using new_worker_idcontrol_other [OF nw, of "''authid''"] f by simp
  from assms u fu nw n nz have row: "authid (k_data (auths_k s') (hd (k_store (auths_k s')))) = aid"
    by (auto simp: auths_add_def Let_def klist_eval split: if_splits prod.splits)
  from assms u fu nw n nz have "pg_idcontrol conn' = pg_idcontrol conn2"
    by (auto simp: auths_add_def Let_def split: if_splits prod.splits dest: PQexecParams_idcontrol)
  with f0 v c row show ?thesis by simp
qed

lemma rand_increment_range: "666 \<le> 666 + int (rnd mod 334) \<and> 666 + int (rnd mod 334) \<le> 999"
proof -
  have "rnd mod 334 < 334" by simp
  then show ?thesis by linarith
qed

lemma rand_increment_onto:
  assumes "666 \<le> k" "k \<le> 999"
  shows "\<exists>rnd. 666 + int (rnd mod 334) = k"
proof
  from assms have "nat (k - 666) < 334" by simp
  then have "nat (k - 666) mod 334 = nat (k - 666)" by simp
  with assms show "666 + int (nat (k - 666) mod 334) = k" by simp
qed

text \<open>
  C5 (as amended). \<open>users_add\<close> allocates the \<open>userid\<close> with the increment
  \<open>666 + rand() % 334\<close>, which lies in [666, 999] and takes every value of that range
  for some \<open>rand()\<close>; \<open>workers_add\<close> and \<open>auths_add\<close> allocate with the increment 1. The
  new id is the old \<open>lastid\<close> plus the increment (as an \<open>int64_t\<close>), it is written back
  as the new \<open>lastid\<close>, and unless the addition overflows a created users row has a
  \<open>userid\<close> at least 666 greater than the previous \<open>lastid\<close>.
\<close>

theorem nextid_increments:
  "(users_add s conn rnd usernm email pwhash now by code inet = (True, s', conn') \<longrightarrow>
      (\<exists>field. pg_idcontrol conn ''userid'' = Some field
         \<and> 666 \<le> 666 + int (rnd mod 334) \<and> 666 + int (rnd mod 334) \<le> 999
         \<and> users.userid (k_data (users_k s') (hd (k_store (users_k s'))))
             = int64 (atoll field + (666 + int (rnd mod 334)))
         \<and> pg_idcontrol conn' ''userid''
             = Some (dec_int (users.userid (k_data (users_k s') (hd (k_store (users_k s'))))))
         \<and> (atoll field + 999 < 2 ^ 63 \<longrightarrow>
               atoll (dec_int (users.userid (k_data (users_k s') (hd (k_store (users_k s'))))))
                 = atoll field + (666 + int (rnd mod 334))
               \<and> atoll field + 666 \<le> users.userid (k_data (users_k s') (hd (k_store (users_k s'))))
               \<and> users.userid (k_data (users_k s') (hd (k_store (users_k s')))) \<le> atoll field + 999)))
   \<and> (\<forall>k. 666 \<le> k \<and> k \<le> 999 \<longrightarrow> (\<exists>r. 666 + int (r mod 334) = k))
   \<and> (workers_add ws wconn uid wname dd ie it wnow wby wcode winet = (Some item, ws', wconn') \<longrightarrow>
      (\<exists>field. pg_idcontrol wconn ''workerid'' = Some field
         \<and> workerid (k_data (workers_k ws') item) = int64 (atoll field + 1)
         \<and> pg_idcontrol wconn' ''workerid'' = Some (dec_int (workerid (k_data (workers_k ws') item)))
         \<and> (atoll field + 1 < 2 ^ 63 \<longrightarrow>
               atoll (dec_int (workerid (k_data (workers_k ws') item))) = atoll field + 1)))
   \<and> (auths_add as aconn ausernm awname cid en ua anow aby acode ainet = (Some sec, as', aconn') \<longrightarrow>
      (\<exists>field. pg_idcontrol aconn ''authid'' = Some field
         \<and> authid (k_data (auths_k as') (hd (k_store (auths_k as')))) = int64 (atoll field + 1)
         \<and> pg_idcontrol aconn' ''authid''
             = Some (dec_int (authid (k_data (auths_k as') (hd (k_store (auths_k as'))))))
         \<and> (atoll field + 1 < 2 ^ 63 \<longrightarrow>
               atoll (dec_int (authid (k_data (auths_k as') (hd (k_store (auths_k as'))))))
                 = atoll field + 1)))"
proof (intro conjI impI allI)
  assume a: "users_add s conn rnd usernm email pwhash now by code inet = (True, s', conn')"
  from users_add_userid [OF a] obtain field where
    f: "pg_idcontrol conn ''userid'' = Some field" and
    v: "users.userid (k_data (users_k s') (hd (k_store (users_k s'))))
          = int64 (atoll field + (666 + int (rnd mod 334)))" and
    c: "pg_idcontrol conn' ''userid'' = Some (dec_int (int64 (atoll field + (666 + int (rnd mod 334)))))"
    by blast
  have r: "666 \<le> 666 + int (rnd mod 334)" "666 + int (rnd mod 334) \<le> 999"
    using rand_increment_range [of rnd] by simp_all
  have o: "atoll field + 999 < 2 ^ 63 \<Longrightarrow> int64 (atoll field + (666 + int (rnd mod 334)))
        = atoll field + (666 + int (rnd mod 334))"
    using atoll_range [of field] r by (intro int64_id) linarith+
  have o2: "atoll field + 999 < 2 ^ 63 \<Longrightarrow>
      atoll (dec_int (atoll field + (666 + int (rnd mod 334)))) = atoll field + (666 + int (rnd mod 334))"
    using atoll_range [of field] r by (intro atoll_dec_int) linarith+
  show "\<exists>field. pg_idcontrol conn ''userid'' = Some field
         \<and> 666 \<le> 666 + int (rnd mod 334) \<and> 666 + int (rnd mod 334) \<le> 999
         \<and> users.userid (k_data (users_k s') (hd (k_store (users_k s'))))
             = int64 (atoll field + (666 + int (rnd mod 334)))
         \<and> pg_idcontrol conn' ''userid''
             = Some (dec_int (users.userid (k_data (users_k s') (hd (k_store (users_k s'))))))
         \<and> (atoll field + 999 < 2 ^ 63 \<longrightarrow>
               atoll (dec_int (users.userid (k_data (users_k s') (hd (k_store (users_k s'))))))
                 = atoll field + (666 + int (rnd mod 334))
               \<and> atoll field + 666 \<le> users.userid (k_data (users_k s') (hd (k_store (users_k s'))))
               \<and> users.userid (k_data (users_k s') (hd (k_store (users_k s')))) \<le> atoll field + 999)"
    using f c r o o2 unfolding v by (intro exI [of _ field]) auto
next
  fix k :: int
  assume "666 \<le> k \<and> k \<le> 999"
  then show "\<exists>r. 666 + int (r mod 334) = k"
    using rand_increment_onto [of k] by blast
next
  assume a: "workers_add ws wconn uid wname dd ie it wnow wby wcode winet = (Some item, ws', wconn')"
  from workers_add_workerid [OF a] obtain field where
    f: "pg_idcontrol wconn ''workerid'' = Some field" and
    v: "workerid (k_data (workers_k ws') item) = int64 (atoll field + 1)" and
    c: "pg_idcontrol wconn' ''workerid'' = Some (dec_int (int64 (atoll field + 1)))"
    by blast
  have o: "atoll field + 1 < 2 ^ 63 \<Longrightarrow> int64 (atoll field + 1) = atoll field + 1"
    using atoll_range [of field] by (intro int64_id) linarith+
  have o2: "atoll field + 1 < 2 ^ 63 \<Longrightarrow> atoll (dec_int (atoll field + 1)) = atoll field + 1"
    using atoll_range [of field] by (intro atoll_dec_int) linarith+
  show "\<exists>field. pg_idcontrol wconn ''workerid'' = Some field
         \<and> workerid (k_data (workers_k ws') item) = int64 (atoll field + 1)
         \<and> pg_idcontrol wconn' ''workerid'' = Some (dec_int (workerid (k_data (workers_k ws') item)))
         \<and> (atoll field + 1 < 2 ^ 63 \<longrightarrow>
               atoll (dec_int (workerid (k_data (workers_k ws') item))) = atoll field + 1)"
    using f c o o2 unfolding v by (intro exI [of _ field]) auto
next
  assume a: "auths_add as aconn ausernm awname cid en ua anow aby acode ainet = (Some sec, as', aconn')"
  from auths_add_authid [OF a] obtain field where
    f: "pg_idcontrol aconn ''authid'' = Some field" and
    v: "authid (k_data (auths_k as') (hd (k_store (auths_k as')))) = int64 (atoll field + 1)" and
    c: "pg_idcontrol aconn' ''authid'' = Some (dec_int (int64 (atoll field + 1)))"
    by blast
  have o: "atoll field + 1 < 2 ^ 63 \<Longrightarrow> int64 (atoll field + 1) = atoll field + 1"
    using atoll_range [of field] by (intro int64_id) linarith+
  have o2: "atoll field + 1 < 2 ^ 63 \<Longrightarrow> atoll (dec_int (atoll field + 1)) = atoll field + 1"
    using atoll_range [of field] by (intro atoll_dec_int) linarith+
  show "\<exists>field. pg_idcontrol aconn ''authid'' = Some field
         \<and> authid (k_data (auths_k as') (hd (k_store (auths_k as')))) = int64 (atoll field + 1)
         \<and> pg_idcontrol aconn' ''authid''
             = Some (dec_int (authid (k_data (auths_k as') (hd (k_store (auths_k as'))))))
         \<and> (atoll field + 1 < 2 ^ 63 \<longrightarrow>
               atoll (dec_int (authid (k_data (auths_k as') (hd (k_store (auths_k as'))))))
                 = atoll field + 1)"
    using f c o o2 unfolding v by (intro exI [of _ field]) auto
qed

lemmas cmp_eval =
  find_in_ktree_def cmp_users_def cmp_userid_def cmp_workers_def cmp_workinfo_def tvdiff_def
  default_expiry_def DEFAULT_EXPIRY_def tv_zero_def

lemma users_add_alice:
  "fst (users_add ckdb_new (pg_new pg_ok3) 0 ''alice'' ''alice@example.com''
       ''aaaaaaaaaaaaaaaaaaaaaaaaaaaaaaaaaaaaaaaaaaaaaaaaaaaaaaaaaaaaaaaa'' now_ex
       ''code'' ''listener'' ''127.0.0.1'') = True
   \<and> fst (snd (users_add ckdb_new (pg_new pg_ok3) 0 ''alice'' ''alice@example.com''
       ''aaaaaaaaaaaaaaaaaaaaaaaaaaaaaaaaaaaaaaaaaaaaaaaaaaaaaaaaaaaaaaaa'' now_ex
       ''code'' ''listener'' ''127.0.0.1'')) = ckdb_alice"
  by (simp add: users_add_def ckdb_new_def ckdb_alice_def alice_row_def pg_ok3_def now_ex_def
      klist_eval pg_eval text_eval hash_eval Let_def HISTORYDATEINIT_def cmp_eval users_look_def
      HISTORYDATEPARAMS_def)

lemma users_add_333_ok:
  "fst (users_add ckdb_new (pg_new pg_ok3) 333 ''alice'' ''alice@example.com'' ''aa'' now_ex
       ''code'' ''listener'' ''127.0.0.1'')"
  by (simp add: users_add_def ckdb_new_def pg_ok3_def klist_eval pg_eval text_eval Let_def)

lemma workers_add_rig1_ok:
  "fst (workers_add ckdb_alice (pg_new pg_ok3) 1666 ''alice.rig1'' (Some ''10'') (Some '' '')
          (Some ''10'') now_ex ''code'' ''listener'' ''127.0.0.1'') = Some 0"
  by (simp add: workers_add_def ckdb_new_def ckdb_alice_def pg_ok3_def
      klist_eval pg_eval text_eval Let_def)

lemma auths_add_rig1_ok:
  "fst (auths_add ckdb_alice (pg_new (pg_ok3 @ pg_ok3)) ''alice'' ''alice.rig1'' ''42'' ''deadbeef''
          ''cgminer/4.0'' now_ex ''code'' ''listener'' ''127.0.0.1'') = Some ''bef77abfd9fa60df''"
  by (simp add: auths_add_def new_worker_def workers_add_def find_users_def find_workers_def
      DATA_USERS_def ckdb_new_def ckdb_alice_def alice_row_def pg_ok3_def
      klist_eval pg_eval text_eval cmp_eval Let_def
      DIFFICULTYDEFAULT_DEF_STR_def IDLENOTIFICATIONENABLED_DEF_def IDLENOTIFICATIONDISABLED_def
      IDLENOTIFICATIONTIME_DEF_STR_def)

theorem nextid_increments_witness:
  "(case users_add ckdb_new (pg_new pg_ok3) 333 ''alice'' ''alice@example.com'' ''aa'' now_ex
          ''code'' ''listener'' ''127.0.0.1'' of
      (ok, s', conn') \<Rightarrow>
        ok \<and> users.userid (k_data (users_k s') (hd (k_store (users_k s')))) = 1000 + 999
           \<and> pg_idcontrol conn' ''userid'' = Some ''1999'')
   \<and> (case workers_add ckdb_alice (pg_new pg_ok3) 1666 ''alice.rig1'' (Some ''10'') (Some '' '')
          (Some ''10'') now_ex ''code'' ''listener'' ''127.0.0.1'' of
      (r, s', conn') \<Rightarrow>
        r = Some 0 \<and> workerid (k_data (workers_k s') 0) = 5 + 1
          \<and> pg_idcontrol conn' ''workerid'' = Some ''6'')
   \<and> (case auths_add ckdb_alice (pg_new (pg_ok3 @ pg_ok3)) ''alice'' ''alice.rig1'' ''42''
          ''deadbeef'' ''cgminer/4.0'' now_ex ''code'' ''listener'' ''127.0.0.1'' of
      (r, s', conn') \<Rightarrow>
        r = Some ''bef77abfd9fa60df''
          \<and> authid (k_data (auths_k s') (hd (k_store (auths_k s')))) = 7 + 1
          \<and> pg_idcontrol conn' ''authid'' = Some ''8'')"
proof (intro conjI)
  have db: "pg_idcontrol (pg_new res) ''userid'' = Some ''1000''"
      "pg_idcontrol (pg_new res) ''workerid'' = Some ''5''"
      "pg_idcontrol (pg_new res) ''authid'' = Some ''7''" for res
    by (simp_all add: pg_new_def)
  have n: "atoll ''1000'' = 1000" "atoll ''5'' = 5" "atoll ''7'' = 7"
      "int64 1999 = 1999" "int64 6 = 6" "int64 8 = 8"
      "dec_int 1999 = ''1999''" "dec_int 6 = ''6''" "dec_int 8 = ''8''"
    by (simp_all add: text_eval)
  show "case users_add ckdb_new (pg_new pg_ok3) 333 ''alice'' ''alice@example.com'' ''aa'' now_ex
          ''code'' ''listener'' ''127.0.0.1'' of
      (ok, s', conn') \<Rightarrow>
        ok \<and> users.userid (k_data (users_k s') (hd (k_store (users_k s')))) = 1000 + 999
           \<and> pg_idcontrol conn' ''userid'' = Some ''1999''"
  proof (cases "users_add ckdb_new (pg_new pg_ok3) 333 ''alice'' ''alice@example.com'' ''aa'' now_ex
          ''code'' ''listener'' ''127.0.0.1''")
    case (fields ok s' conn')
    with users_add_333_ok have e:
      "users_add ckdb_new (pg_new pg_ok3) 333 ''alice'' ''alice@example.com'' ''aa'' now_ex
          ''code'' ''listener'' ''127.0.0.1'' = (True, s', conn')"
      by simp
    from nextid_increments [THEN conjunct1, THEN mp, OF e]
    show ?thesis
      by (simp add: e db n)
  qed
  show "case workers_add ckdb_alice (pg_new pg_ok3) 1666 ''alice.rig1'' (Some ''10'') (Some '' '')
          (Some ''10'') now_ex ''code'' ''listener'' ''127.0.0.1'' of
      (r, s', conn') \<Rightarrow>
        r = Some 0 \<and> workerid (k_data (workers_k s') 0) = 5 + 1
          \<and> pg_idcontrol conn' ''workerid'' = Some ''6''"
  proof (cases "workers_add ckdb_alice (pg_new pg_ok3) 1666 ''alice.rig1'' (Some ''10'') (Some '' '')
          (Some ''10'') now_ex ''code'' ''listener'' ''127.0.0.1''")
    case (fields r s' conn')
    with workers_add_rig1_ok have e:
      "workers_add ckdb_alice (pg_new pg_ok3) 1666 ''alice.rig1'' (Some ''10'') (Some '' '')
          (Some ''10'') now_ex ''code'' ''listener'' ''127.0.0.1'' = (Some 0, s', conn')"
      by simp
    from nextid_increments [THEN conjunct2, THEN conjunct2, THEN conjunct1, THEN mp, OF e]
    show ?thesis
      by (simp add: e db n)
  qed
  show "case auths_add ckdb_alice (pg_new (pg_ok3 @ pg_ok3)) ''alice'' ''alice.rig1'' ''42''
          ''deadbeef'' ''cgminer/4.0'' now_ex ''code'' ''listener'' ''127.0.0.1'' of
      (r, s', conn') \<Rightarrow>
        r = Some ''bef77abfd9fa60df''
          \<and> authid (k_data (auths_k s') (hd (k_store (auths_k s')))) = 7 + 1
          \<and> pg_idcontrol conn' ''authid'' = Some ''8''"
  proof (cases "auths_add ckdb_alice (pg_new (pg_ok3 @ pg_ok3)) ''alice'' ''alice.rig1'' ''42''
          ''deadbeef'' ''cgminer/4.0'' now_ex ''code'' ''listener'' ''127.0.0.1''")
    case (fields r s' conn')
    with auths_add_rig1_ok have e:
      "auths_add ckdb_alice (pg_new (pg_ok3 @ pg_ok3)) ''alice'' ''alice.rig1'' ''42''
          ''deadbeef'' ''cgminer/4.0'' now_ex ''code'' ''listener'' ''127.0.0.1''
        = (Some ''bef77abfd9fa60df'', s', conn')"
      by simp
    from nextid_increments [THEN conjunct2, THEN conjunct2, THEN conjunct2, THEN mp, OF e]
    show ?thesis
      by (simp add: e db n)
  qed
qed

text \<open>The claim as stated fails where \<open>rand() % 334\<close> is 0: the new \<open>userid\<close> is 666, not
  667, above the previous \<open>lastid\<close>.\<close>

theorem userid_gap_counterexample:
  "(case users_add ckdb_new (pg_new pg_ok3) 0 ''alice'' ''alice@example.com''
          ''aaaaaaaaaaaaaaaaaaaaaaaaaaaaaaaaaaaaaaaaaaaaaaaaaaaaaaaaaaaaaaaa'' now_ex
          ''code'' ''listener'' ''127.0.0.1'' of
      (ok, s', conn') \<Rightarrow>
        ok \<and> pg_idcontrol (pg_new pg_ok3) ''userid'' = Some ''1000''
           \<and> users.userid (k_data (users_k s') (hd (k_store (users_k s')))) = 1000 + 666
           \<and> \<not> 1000 + 667 \<le> users.userid (k_data (users_k s') (hd (k_store (users_k s')))))"
  using users_add_alice
  by (simp add: case_prod_unfold ckdb_alice_def alice_row_def ckdb_new_def pg_new_def)

lemmas parse_eval =
  parsed_def breakdown_def json_none_def cmds_def ID_SIZ_def JSON_TRANSFER_def FLDSEP_def
  strcasecmp_def tolower_def dot_fields.simps dot_transfer_field_def transfer_insert_def
  cmp_transfer_def

lemmas name_eval =
  require_name_def optional_name_def find_transfer_def transfer_look_def DATA_TRANSFER_def
  transfer_data_def regcomp_def userpatt_def hashpatt_def intpatt_def idpatt_def
  isgraph_def isxdigit_def REQUIRE_def cmp_transfer_def

lemma parsed_upper_store:
  "k_store (transfer_k (parsed ckdb_alice chkpass_upper)) = [1, 0]
   \<and> transfer_root (parsed ckdb_alice chkpass_upper) = [1, 0]"
  by (simp add: chkpass_upper_def parse_eval ckdb_alice_def ckdb_new_def klist_eval text_eval
      find_in_ktree_def transfer_zero_def)

lemma chk_upper: "cmd_chkpass (parsed ckdb_alice chkpass_upper) = ''ok''"
  by (simp add: cmd_chkpass_def chkpass_upper_def parse_eval name_eval ckdb_alice_def ckdb_new_def
      alice_row_def klist_eval text_eval cmp_eval transfer_zero_def find_users_def DATA_USERS_def
      Let_def)

lemma strcmp_eq_0: "strcmp a b = 0 \<longleftrightarrow> a = b"
  by (induction a b rule: strcmp.induct) auto

lemma strcasecmp_eq_0: "strcasecmp a b = 0 \<longleftrightarrow> map tolower a = map tolower b"
  by (simp add: strcasecmp_def strcmp_eq_0)

lemma find_in_ktree_Some:
  "find_in_ktree cmp d ktree look = Some i \<Longrightarrow> i \<in> set ktree \<and> cmp (d i) look = 0"
  by (auto simp: find_in_ktree_def find_Some_iff)

lemma find_in_ktree_None:
  "find_in_ktree cmp d ktree look = None \<longleftrightarrow> (\<forall>i \<in> set ktree. cmp (d i) look \<noteq> 0)"
  by (auto simp: find_in_ktree_def find_None_iff)

lemma cmp_users_0:
  "cmp_users a b = 0 \<longleftrightarrow> username a = username b \<and> tvdiff (expirydate b) (expirydate a) = 0"
  by (auto simp: cmp_users_def Let_def strcmp_eq_0)

lemma find_users_Some:
  "find_users s nm = Some u \<Longrightarrow> u \<in> set (users_root s) \<and> users_match s nm u"
  by (auto simp: find_users_def users_match_def DATA_USERS_def cmp_users_0 STRNCPYSIZ_def TXT_BIG_def
      default_expiry_def tvdiff_def dest!: find_in_ktree_Some)

lemma find_users_None:
  "find_users s nm = None \<longleftrightarrow> (\<forall>u \<in> set (users_root s). \<not> users_match s nm u)"
  by (auto simp: find_users_def users_match_def DATA_USERS_def cmp_users_0 STRNCPYSIZ_def TXT_BIG_def
      default_expiry_def tvdiff_def find_in_ktree_None)

text \<open>
  C7 (as amended). For every chkpass request whose two fields pass validation: when
  the username matches a live users row the handler replies \<open>ok\<close> if and only if the
  supplied passwordhash equals the stored hash up to the case of its letters
  (\<open>strcasecmp\<close>), and \<open>bad\<close> otherwise; when the username matches no live users row it
  replies \<open>bad\<close>. The row \<open>find_users\<close> gives is a live row with that username, and it
  gives none exactly when the tree has no such row.
\<close>

theorem cmd_chkpass_reply:
  "(require_name s ''username'' 3 (Some userpatt) 1024 = Inr i_username
      \<and> require_name s ''passwordhash'' 64 (Some hashpatt) 1024 = Inr i_passwordhash \<longrightarrow>
      cmd_chkpass s =
        (case find_users s (DATA_TRANSFER s i_username) of
           None \<Rightarrow> ''bad''
         | Some u_item \<Rightarrow>
             if map tolower (DATA_TRANSFER s i_passwordhash)
                  = map tolower (passwordhash (DATA_USERS s u_item))
             then ''ok'' else ''bad''))
   \<and> (find_users s nm = Some u \<longrightarrow> u \<in> set (users_root s) \<and> users_match s nm u)
   \<and> (find_users s nm = None \<longleftrightarrow> (\<forall>u \<in> set (users_root s). \<not> users_match s nm u))"
proof -
  have a: "require_name s ''username'' 3 (Some userpatt) 1024 = Inr i_username
      \<and> require_name s ''passwordhash'' 64 (Some hashpatt) 1024 = Inr i_passwordhash \<longrightarrow>
      cmd_chkpass s =
        (case find_users s (DATA_TRANSFER s i_username) of
           None \<Rightarrow> ''bad''
         | Some u_item \<Rightarrow>
             if map tolower (DATA_TRANSFER s i_passwordhash)
                  = map tolower (passwordhash (DATA_USERS s u_item))
             then ''ok'' else ''bad'')"
    by (simp add: cmd_chkpass_def REQUIRE_def strcasecmp_eq_0 split: option.splits)
  have b: "find_users s nm = Some u \<longrightarrow> u \<in> set (users_root s) \<and> users_match s nm u"
    using find_users_Some by blast
  have c: "find_users s nm = None \<longleftrightarrow> (\<forall>u \<in> set (users_root s). \<not> users_match s nm u)"
    by (rule find_users_None)
  from a b c show ?thesis by blast
qed

lemmas handler_eval =
  parse_eval name_eval ckdb_alice_def ckdb_new_def alice_row_def klist_eval text_eval cmp_eval
  transfer_zero_def find_users_def DATA_USERS_def Let_def

lemma parsed_same_fields:
  "require_name (parsed ckdb_alice chkpass_same) ''username'' 3 (Some userpatt) 1024 = Inr 0
   \<and> require_name (parsed ckdb_alice chkpass_same) ''passwordhash'' 64 (Some hashpatt) 1024 = Inr 1
   \<and> find_users (parsed ckdb_alice chkpass_same) (DATA_TRANSFER (parsed ckdb_alice chkpass_same) 0) = Some 0
   \<and> DATA_TRANSFER (parsed ckdb_alice chkpass_same) 1 = passwordhash (DATA_USERS (parsed ckdb_alice chkpass_same) 0)"
  by (simp add: chkpass_same_def handler_eval)

lemma parsed_bob_fields:
  "require_name (parsed ckdb_alice chkpass_bob) ''username'' 3 (Some userpatt) 1024 = Inr 0
   \<and> require_name (parsed ckdb_alice chkpass_bob) ''passwordhash'' 64 (Some hashpatt) 1024 = Inr 1
   \<and> find_users (parsed ckdb_alice chkpass_bob) (DATA_TRANSFER (parsed ckdb_alice chkpass_bob) 0) = None"
  by (simp add: chkpass_bob_def handler_eval)

theorem cmd_chkpass_reply_witness:
  "cmd_chkpass (parsed ckdb_alice chkpass_same) = ''ok''
   \<and> cmd_chkpass (parsed ckdb_alice chkpass_bob) = ''bad''
   \<and> users_match (parsed ckdb_alice chkpass_same) (DATA_TRANSFER (parsed ckdb_alice chkpass_same) 0) 0"
  using cmd_chkpass_reply [of "parsed ckdb_alice chkpass_same" 0 1
          "DATA_TRANSFER (parsed ckdb_alice chkpass_same) 0" 0]
        cmd_chkpass_reply [of "parsed ckdb_alice chkpass_bob" 0 1]
        parsed_same_fields parsed_bob_fields
  by simp

text \<open>The claim as stated fails for a hash that differs from the stored one only in
  the case of its letters: alice's stored hash is 64 times \<open>a\<close>, the request supplies
  64 times \<open>A\<close>, and the reply is \<open>ok\<close>.\<close>

theorem cmd_chkpass_counterexample:
  "require_name (parsed ckdb_alice chkpass_upper) ''username'' 3 (Some userpatt) 1024 = Inr 0
   \<and> require_name (parsed ckdb_alice chkpass_upper) ''passwordhash'' 64 (Some hashpatt) 1024 = Inr 1
   \<and> find_users (parsed ckdb_alice chkpass_upper) (DATA_TRANSFER (parsed ckdb_alice chkpass_upper) 0) = Some 0
   \<and> DATA_TRANSFER (parsed ckdb_alice chkpass_upper) 1
        \<noteq> passwordhash (DATA_USERS (parsed ckdb_alice chkpass_upper) 0)
   \<and> cmd_chkpass (parsed ckdb_alice chkpass_upper) = ''ok''"
  by (simp add: cmd_chkpass_def chkpass_upper_def handler_eval)

text \<open>
  C10. For every payments request whose username passes validation and matches no live
  users row in memory, the handler replies exactly \<open>bad\<close> and the state is the one it
  started from.
\<close>

theorem cmd_payments_unknown_user:
  assumes "require_name s ''username'' 3 (Some userpatt) 1024 = Inr i_username"
    and "\<forall>u \<in> set (users_root s). \<not> users_match s (DATA_TRANSFER s i_username) u"
  shows "cmd_payments strftime_local s = (''bad'', s)"
proof -
  from assms(2) have "find_users s (DATA_TRANSFER s i_username) = None"
    by (simp add: find_users_None)
  with assms(1) show ?thesis
    by (simp add: cmd_payments_def REQUIRE_def)
qed

lemma parsed_payments_bob_fields:
  "require_name (parsed ckdb_alice payments_bob) ''username'' 3 (Some userpatt) 1024 = Inr 0
   \<and> users_root (parsed ckdb_alice payments_bob) = [0]
   \<and> \<not> users_match (parsed ckdb_alice payments_bob) (DATA_TRANSFER (parsed ckdb_alice payments_bob) 0) 0"
  by (simp add: payments_bob_def users_match_def handler_eval)

theorem cmd_payments_unknown_user_witness:
  "cmd_payments (\<lambda>t. []) (parsed ckdb_alice payments_bob) = (''bad'', parsed ckdb_alice payments_bob)
   \<and> users_root (parsed ckdb_alice payments_bob) = [0]"
  using cmd_payments_unknown_user [of "parsed ckdb_alice payments_bob" 0 "\<lambda>t. []"]
        parsed_payments_bob_fields
  by simp

subsection \<open>Shares and share errors\<close>

lemma REQUIRE_field:
  "field s nm \<noteq> [] \<Longrightarrow> REQUIRE s nm 1 None ret k = k (the (find_transfer s nm))"
  by (auto simp: REQUIRE_def require_name_def field_def Let_def split: option.splits)

lemma DATA_TRANSFER_field:
  "field s nm \<noteq> [] \<Longrightarrow> DATA_TRANSFER s (the (find_transfer s nm)) = field s nm"
  by (auto simp: field_def split: option.splits)


lemma SIMPLEDATETRANSFER_more:
  "simpledate.more (SIMPLEDATETRANSFER s row) = simpledate.more row"
  by (simp add: SIMPLEDATETRANSFER_def Let_def split: option.splits list.splits)














subsection \<open>The conversion to double\<close>

lemma dbl_shift_div_pos: "0 < m \<Longrightarrow> 0 < m div 2 ^ dbl_shift m"
proof (induction m rule: dbl_shift.induct)
  case (1 m)
  show ?case
  proof (cases "m < 2 ^ 53")
    case True
    then have "dbl_shift m = 0" by (subst dbl_shift.simps) simp
    with 1(2) show ?thesis by simp
  next
    case False
    then have "0 < m div 2" by simp
    with 1(1) [OF False] have "0 < m div 2 div 2 ^ dbl_shift (m div 2)" .
    moreover from False have "dbl_shift m = Suc (dbl_shift (m div 2))"
      by (subst dbl_shift.simps) simp
    ultimately show ?thesis by (simp add: div_mult2_eq)
  qed
qed

lemma cast_double_eq_0: "cast_double x = 0 \<longleftrightarrow> x = 0"
proof (cases "x = 0")
  case True
  then show ?thesis by (simp add: cast_double_def)
next
  case False
  then have "0 < nat \<bar>x\<bar>" by simp
  from dbl_shift_div_pos [OF this] False show ?thesis
    by (auto simp: cast_double_def Let_def sgn_if)
qed


lemma double_minus_eq_0: "double_minus x y = 0 \<longleftrightarrow> x = y"
  by (simp add: double_minus_def cast_double_eq_0)

subsection \<open>What the lookups of a share give\<close>

lemma cmp_workinfo_0:
  "cmp_workinfo a b = 0 \<longleftrightarrow>
     cast_double (workinfo.workinfoid a) = cast_double (workinfo.workinfoid b)
     \<and> tvdiff (expirydate b) (expirydate a) = 0"
  by (auto simp: cmp_workinfo_def Let_def double_minus_eq_0)

lemma cmp_workers_0:
  "cmp_workers a b = 0 \<longleftrightarrow>
     cast_double (workers.userid a) = cast_double (workers.userid b)
     \<and> workers.workername a = workers.workername b
     \<and> tvdiff (expirydate b) (expirydate a) = 0"
  by (auto simp: cmp_workers_def Let_def double_minus_eq_0 strcmp_eq_0)

lemma find_workinfo_Some:
  "find_workinfo s uninit wid = Some i \<Longrightarrow> i \<in> set (workinfo_root s) \<and> workinfo_match s uninit wid i"
  by (auto simp: find_workinfo_def workinfo_match_def cmp_workinfo_0 dest!: find_in_ktree_Some)


lemma find_workers_Some:
  "find_workers s uid wname = Some i \<Longrightarrow> i \<in> set (workers_root s) \<and> workers_match s uid wname i"
  by (auto simp: find_workers_def workers_match_def cmp_workers_0 STRNCPYSIZ_def TXT_BIG_def
      default_expiry_def tvdiff_def dest!: find_in_ktree_Some)











subsection \<open>Poolstats\<close>

lemma poolstats_add_not_stored:
  "\<exists>s'. poolstats_add s conn False poolinst usersstr workersstr hr hr5m hr1hr hr24hr now by code inet
          = (True, s', conn)
        \<and> k_store (poolstats_k s') = fst (k_unlink_head (poolstats_k s)) # k_store (poolstats_k s)"
  by (simp add: poolstats_add_def Let_def klist_eval split: prod.splits list.splits)

lemma cmd_poolstats_found:
  assumes "required s [''poolinstance'', ''users'', ''workers'', ''hashrate'', ''hashrate5m'',
             ''hashrate1hr'', ''hashrate24hr'', ''createdate'']"
    and "find_before_in_ktree cmp_poolstats (k_data (poolstats_k s)) (poolstats_root s)
           (poolstats_look
              \<lparr>poolstats.poolinstance := STRNCPYSIZ (TXT_BIG + 1) (field s ''poolinstance''),
               createdate := \<lparr>tv_sec = tv_sec date_eot, tv_usec = tv_usec date_eot\<rparr>\<rparr>) = Some ps"
    and "txt_to_tv mktime (field s ''createdate'') = Inr cdate"
    and "tvdiff cdate date_eot \<le> STATS_PER"
    and "pg_up db"
  shows "\<exists>s'. cmd_poolstats mktime s db now by code inet = Inr (''added.ok'', s', db)
           \<and> k_store (poolstats_k s') = fst (k_unlink_head (poolstats_k s)) # k_store (poolstats_k s)"
proof -
  obtain s' where p: "poolstats_add s db False (field s ''poolinstance'') (field s ''users'')
        (field s ''workers'') (field s ''hashrate'') (field s ''hashrate5m'')
        (field s ''hashrate1hr'') (field s ''hashrate24hr'') now by code inet = (True, s', db)"
    and k: "k_store (poolstats_k s') = fst (k_unlink_head (poolstats_k s)) # k_store (poolstats_k s)"
    using poolstats_add_not_stored by blast
  have de: "\<lparr>tv_sec = tv_sec date_eot, tv_usec = tv_usec date_eot\<rparr> = date_eot"
    by simp
  have "cmd_poolstats mktime s db now by code inet = Inr (''added.ok'', s', db)"
    using assms p
    by (simp add: cmd_poolstats_def required_def REQUIRE_field DATA_TRANSFER_field Let_def
        dbconnect_def snprintf_def de)
  with k show ?thesis by blast
qed

lemma parsed_poolstats_600_fields:
  "required (parsed ckdb_pool poolstats_600) [''poolinstance'', ''users'', ''workers'', ''hashrate'',
       ''hashrate5m'', ''hashrate1hr'', ''hashrate24hr'', ''createdate'']
   \<and> field (parsed ckdb_pool poolstats_600) ''poolinstance'' = ''main''
   \<and> field (parsed ckdb_pool poolstats_600) ''createdate'' = ''2014-06-01 00:10:00+00''
   \<and> poolstats_k (parsed ckdb_pool poolstats_600) = poolstats_k ckdb_pool
   \<and> poolstats_root (parsed ckdb_pool poolstats_600) = [0]"
  by (simp add: poolstats_600_def ckdb_pool_def main_row_def handler_eval field_def required_def)

lemma txt_to_tv_600:
  "txt_to_tv mktime_utc ''2014-06-01 00:10:00+00'' = Inr \<lparr>tv_sec = 1401581400, tv_usec = 0\<rparr>"
  by (simp add: txt_to_tv_def scan_tv_eval mktime_utc_eval COMPARE_EXPIRY_def Let_def)

lemma find_before_main:
  "find_before_in_ktree cmp_poolstats (k_data (poolstats_k ckdb_pool)) [0]
     (poolstats_look
        \<lparr>poolstats.poolinstance := STRNCPYSIZ (TXT_BIG + 1) ''main'',
         createdate := \<lparr>tv_sec = tv_sec date_eot, tv_usec = tv_usec date_eot\<rparr>\<rparr>) = Some 0"
  by (simp add: find_before_in_ktree_def cmp_poolstats_def ckdb_pool_def main_row_def
      poolstats_look_def date_eot_def DATE_S_EOT_def DATE_uS_EOT_def tvdiff_def text_eval)

text \<open>
  C3 fails on the code. \<open>cmd_poolstats\<close> compares the request's \<open>createdate\<close> with
  \<open>row.createdate\<close>, the key it searched with, which holds \<open>date_eot\<close>, and not with the
  row \<open>ps\<close> it found. With a row for \<open>main\<close> created at 1401580800 in memory, the
  request for \<open>main\<close> whose \<open>createdate\<close> is 600 seconds later (more than \<open>STATS_PER\<close>)
  is answered \<open>added.ok\<close> and the row is added to memory, and the database session is
  the one the handler started with: no statement was sent.
\<close>

theorem cmd_poolstats_600_seconds_later:
  "txt_to_tv mktime_utc (field (parsed ckdb_pool poolstats_600) ''createdate'')
      = Inr \<lparr>tv_sec = 1401581400, tv_usec = 0\<rparr>
   \<and> real_of_int (1401581400 - 1401580800) > STATS_PER
   \<and> field (parsed ckdb_pool poolstats_600) ''poolinstance'' = ''main''
   \<and> poolstats_root (parsed ckdb_pool poolstats_600) = [0]
   \<and> poolstats.poolinstance (k_data (poolstats_k (parsed ckdb_pool poolstats_600)) 0) = ''main''
   \<and> createdate (k_data (poolstats_k (parsed ckdb_pool poolstats_600)) 0)
        = \<lparr>tv_sec = 1401580800, tv_usec = 0\<rparr>
   \<and> pg_done (pg_new [PGRES_COMMAND_OK]) = []
   \<and> (\<exists>s'. cmd_poolstats mktime_utc (parsed ckdb_pool poolstats_600) (pg_new [PGRES_COMMAND_OK])
               now_600 ''code'' ''listener'' ''127.0.0.1''
             = Inr (''added.ok'', s', pg_new [PGRES_COMMAND_OK])
           \<and> k_store (poolstats_k s') = [1, 0])"
proof -
  let ?s = "parsed ckdb_pool poolstats_600"
  note f = parsed_poolstats_600_fields
  have a: "txt_to_tv mktime_utc (field ?s ''createdate'')
      = Inr \<lparr>tv_sec = 1401581400, tv_usec = 0\<rparr>"
    using f txt_to_tv_600 by simp
  have b: "real_of_int (1401581400 - 1401580800) > STATS_PER"
    by (simp add: STATS_PER_def)
  have c: "field ?s ''poolinstance'' = ''main''" "poolstats_root ?s = [0]"
    using f by simp_all
  have d: "poolstats.poolinstance (k_data (poolstats_k ?s) 0) = ''main''"
    "createdate (k_data (poolstats_k ?s) 0) = \<lparr>tv_sec = 1401580800, tv_usec = 0\<rparr>"
    using f by (simp_all add: ckdb_pool_def main_row_def)
  have e: "pg_done (pg_new [PGRES_COMMAND_OK]) = []"
    by (simp add: pg_new_def)
  have r: "required ?s [''poolinstance'', ''users'', ''workers'', ''hashrate'', ''hashrate5m'',
             ''hashrate1hr'', ''hashrate24hr'', ''createdate'']"
    using f by simp
  have fb: "find_before_in_ktree cmp_poolstats (k_data (poolstats_k ?s)) (poolstats_root ?s)
           (poolstats_look
              \<lparr>poolstats.poolinstance := STRNCPYSIZ (TXT_BIG + 1) (field ?s ''poolinstance''),
               createdate := \<lparr>tv_sec = tv_sec date_eot, tv_usec = tv_usec date_eot\<rparr>\<rparr>) = Some 0"
    using f find_before_main by simp
  have td: "tvdiff \<lparr>tv_sec = 1401581400, tv_usec = 0\<rparr> date_eot \<le> STATS_PER"
    by (simp add: tvdiff_def date_eot_def DATE_S_EOT_def DATE_uS_EOT_def STATS_PER_def)
  have up: "pg_up (pg_new [PGRES_COMMAND_OK])"
    by (simp add: pg_new_def)
  have ku: "fst (k_unlink_head (poolstats_k ?s)) # k_store (poolstats_k ?s) = [1, 0]"
    using f by (simp add: ckdb_pool_def klist_eval)
  have g: "\<exists>s'. cmd_poolstats mktime_utc ?s (pg_new [PGRES_COMMAND_OK])
               now_600 ''code'' ''listener'' ''127.0.0.1''
             = Inr (''added.ok'', s', pg_new [PGRES_COMMAND_OK])
           \<and> k_store (poolstats_k s') = [1, 0]"
    using cmd_poolstats_found [OF r fb a td up, of now_600 "''code''" "''listener''" "''127.0.0.1''"]
    unfolding ku .
  show ?thesis by (intro conjI a b c d e g)
qed

subsection \<open>The settings of a new worker\<close>











subsection \<open>Workinfo\<close>

text \<open>
  C1 fails on the code. \<open>workinfo_add\<close> returns the \<open>workinfoid\<close> of the row after an
  insert that the database accepted, and -1 otherwise, and links the row unless that
  value is -1. For the sharelog request with method \<open>workinfo\<close> and \<open>workinfoid\<close> -1 the
  database accepts the insert, whose first parameter is -1, the row is not linked (the
  slot is back on the free list, the store and the tree are empty as before) and the
  reply is \<open>bad.DBE\<close>.
\<close>

theorem cmd_sharelog_workinfo_minus_1:
  "field (parsed ckdb_new workinfo_minus_1) ''method'' = ''workinfo''
   \<and> atoll (field (parsed ckdb_new workinfo_minus_1) ''workinfoid'') = - 1
   \<and> workinfo_root (parsed ckdb_new workinfo_minus_1) = []
   \<and> k_store (workinfo_k (parsed ckdb_new workinfo_minus_1)) = []
   \<and> (case cmd_sharelog (parsed ckdb_new workinfo_minus_1) (pg_new [PGRES_COMMAND_OK]) tv_zero
              now_ex ''code'' ''listener'' ''127.0.0.1'' of
         Inr (reply, s', db') \<Rightarrow>
           reply = ''bad.DBE''
           \<and> map fst (pg_done db') = [''insert into workinfo'']
           \<and> hd (snd (hd (pg_done db'))) = P_bigint (- 1)
           \<and> workinfo_root s' = [] \<and> k_store (workinfo_k s') = []
           \<and> k_free (workinfo_k s') = [0]
       | Inl f \<Rightarrow> False)"
proof -
  have a: "field (parsed ckdb_new workinfo_minus_1) ''method'' = ''workinfo''
     \<and> atoll (field (parsed ckdb_new workinfo_minus_1) ''workinfoid'') = - 1
     \<and> workinfo_root (parsed ckdb_new workinfo_minus_1) = []
     \<and> k_store (workinfo_k (parsed ckdb_new workinfo_minus_1)) = []"
    by (simp add: workinfo_minus_1_def handler_eval field_def)
  have b: "(case cmd_sharelog (parsed ckdb_new workinfo_minus_1) (pg_new [PGRES_COMMAND_OK]) tv_zero
              now_ex ''code'' ''listener'' ''127.0.0.1'' of
         Inr (reply, s', db') \<Rightarrow>
           reply = ''bad.DBE''
           \<and> map fst (pg_done db') = [''insert into workinfo'']
           \<and> hd (snd (hd (pg_done db'))) = P_bigint (- 1)
           \<and> workinfo_root s' = [] \<and> k_store (workinfo_k s') = []
           \<and> k_free (workinfo_k s') = [0]
       | Inl f \<Rightarrow> False)"
    by (simp add: cmd_sharelog_def workinfo_add_def workinfo_minus_1_def handler_eval pg_eval
        METHOD_WORKINFO_def HISTORYDATEINIT_def HISTORYDATETRANSFER_def SIMPLEDATETRANSFER_def
        HISTORYDATEPARAMS_def workinfo_look_def)
  from a b show ?thesis by (intro conjI) simp_all
qed

end
